theory Spec2Isabelle
  imports Main
begin

section \<open>Strings, errors and the engine's built-ins\<close>

text \<open>
  A JavaScript string is carried as the list of its code points: a surrogate pair is one
  code point above \<open>0xFFFF\<close>, and a code point in \<open>0xD800..0xDFFF\<close> is an unpaired
  surrogate. The literals of the source are ASCII and are written \<open>lit ''...''\<close>.
\<close>

type_synonym jsstring = "nat list"

definition lit :: "string \<Rightarrow> jsstring" where
  "lit s = map of_char s"

text \<open>The exceptions of the built-ins this program calls.\<close>

datatype js_error = URIError | TypeError

text \<open>
  The built-ins whose results come from tables of the engine and of its locale, not from
  this repository: \<open>String.prototype.normalize("NFKD")\<close>, \<open>String.prototype.toLowerCase\<close>,
  the text a template literal gives for a member inherited from \<open>Object.prototype\<close>,
  \<open>Date\<close> parsing with \<open>toLocaleDateString\<close> (\<open>None\<close> for an invalid date), and the text of
  a number. They are parameters of every function that calls them.
\<close>

record engine =
  nfkd :: "jsstring \<Rightarrow> jsstring"
  toLowerCase :: "jsstring \<Rightarrow> jsstring"
  builtinText :: "jsstring \<Rightarrow> jsstring"
  localeDate :: "jsstring \<Rightarrow> jsstring option"
  numberText :: "int \<Rightarrow> jsstring"

text \<open>
  \<open>WhiteSpace\<close> and \<open>LineTerminator\<close> of ECMAScript: what \<open>String.prototype.trim\<close> strips
  and what \<open>\s\<close> matches in a regular expression.
\<close>

definition is_space :: "nat \<Rightarrow> bool" where
  "is_space c \<longleftrightarrow>
     (0x09 \<le> c \<and> c \<le> 0x0D) \<or> c = 0x20 \<or> c = 0xA0 \<or> c = 0x1680
     \<or> (0x2000 \<le> c \<and> c \<le> 0x200A) \<or> c = 0x2028 \<or> c = 0x2029 \<or> c = 0x202F
     \<or> c = 0x205F \<or> c = 0x3000 \<or> c = 0xFEFF"

definition trim :: "jsstring \<Rightarrow> jsstring" where
  "trim s = rev (dropWhile is_space (rev (dropWhile is_space s)))"

text \<open>\<open>raw.replace(/\+/g, " ")\<close>\<close>

definition replace_plus :: "jsstring \<Rightarrow> jsstring" where
  "replace_plus s = map (\<lambda>c. if c = 0x2B then 0x20 else c) s"

subsection \<open>decodeURIComponent\<close>

text \<open>
  The \<open>Decode\<close> operation of ECMA-262 with an empty set of preserved escapes. Every
  \<open>%\<close> must start an escape \<open>%XX\<close>; an octet with a leading 1 bit must start a valid UTF-8
  sequence whose other octets are escapes too; anything else throws \<open>URIError\<close>.
\<close>

definition hex_digit :: "nat \<Rightarrow> nat option" where
  "hex_digit c =
     (if 0x30 \<le> c \<and> c \<le> 0x39 then Some (c - 0x30)
      else if 0x41 \<le> c \<and> c \<le> 0x46 then Some (c - 0x41 + 10)
      else if 0x61 \<le> c \<and> c \<le> 0x66 then Some (c - 0x61 + 10)
      else None)"

fun take_octet :: "jsstring \<Rightarrow> (nat \<times> jsstring) option" where
  "take_octet (p # a # b # rest) =
     (if p = 0x25 then
        (case (hex_digit a, hex_digit b) of
           (Some h, Some l) \<Rightarrow> Some (16 * h + l, rest)
         | _ \<Rightarrow> None)
      else None)"
| "take_octet _ = None"

fun take_octets :: "nat \<Rightarrow> jsstring \<Rightarrow> (nat list \<times> jsstring) option" where
  "take_octets 0 s = Some ([], s)"
| "take_octets (Suc n) s =
     (case take_octet s of
        None \<Rightarrow> None
      | Some (b, r) \<Rightarrow>
          (case take_octets n r of
             None \<Rightarrow> None
           | Some (bs, r') \<Rightarrow> Some (b # bs, r')))"

definition leading_ones :: "nat \<Rightarrow> nat" where
  "leading_ones b =
     (if b < 0x80 then 0 else if b < 0xC0 then 1 else if b < 0xE0 then 2
      else if b < 0xF0 then 3 else if b < 0xF8 then 4 else 5)"

definition is_cont :: "nat \<Rightarrow> bool" where
  "is_cont b \<longleftrightarrow> 0x80 \<le> b \<and> b < 0xC0"

text \<open>The code point of a well-formed UTF-8 sequence of two to four octets.\<close>

fun utf8_value :: "nat list \<Rightarrow> nat option" where
  "utf8_value [b0, b1] =
     (let v = (b0 - 0xC0) * 64 + (b1 - 0x80)
      in if is_cont b1 \<and> 0x80 \<le> v then Some v else None)"
| "utf8_value [b0, b1, b2] =
     (let v = (b0 - 0xE0) * 4096 + (b1 - 0x80) * 64 + (b2 - 0x80)
      in if is_cont b1 \<and> is_cont b2 \<and> 0x800 \<le> v \<and> \<not> (0xD800 \<le> v \<and> v \<le> 0xDFFF)
         then Some v else None)"
| "utf8_value [b0, b1, b2, b3] =
     (let v = (b0 - 0xF0) * 262144 + (b1 - 0x80) * 4096 + (b2 - 0x80) * 64 + (b3 - 0x80)
      in if is_cont b1 \<and> is_cont b2 \<and> is_cont b3 \<and> 0x10000 \<le> v \<and> v \<le> 0x10FFFF
         then Some v else None)"
| "utf8_value _ = None"

definition prepend :: "nat \<Rightarrow> js_error + jsstring \<Rightarrow> js_error + jsstring" where
  "prepend c r = (case r of Inl e \<Rightarrow> Inl e | Inr s \<Rightarrow> Inr (c # s))"

lemma take_octet_shorter: "take_octet s = Some (b, r) \<Longrightarrow> length r < length s"
  by (induction s rule: take_octet.induct) (auto split: if_splits option.splits)

lemma take_octets_shorter: "take_octets n s = Some (bs, r) \<Longrightarrow> length r \<le> length s"
proof (induction n arbitrary: s bs r)
  case 0
  then show ?case by simp
next
  case (Suc n)
  from Suc.prems obtain b r1 bs1 where
    first: "take_octet s = Some (b, r1)" and more: "take_octets n r1 = Some (bs1, r)"
    by (auto split: option.splits)
  from take_octet_shorter [OF first] Suc.IH [OF more] show ?case by simp
qed

function decodeURIComponent :: "jsstring \<Rightarrow> js_error + jsstring" where
  "decodeURIComponent [] = Inr []"
| "decodeURIComponent (c # cs) =
     (if c \<noteq> 0x25 then prepend c (decodeURIComponent cs)
      else
        (case take_octet (c # cs) of
           None \<Rightarrow> Inl URIError
         | Some (b, r) \<Rightarrow>
             (if leading_ones b = 0 then prepend b (decodeURIComponent r)
              else if leading_ones b = 1 \<or> 4 < leading_ones b then Inl URIError
              else
                (case take_octets (leading_ones b - 1) r of
                   None \<Rightarrow> Inl URIError
                 | Some (bs, r') \<Rightarrow>
                     (case utf8_value (b # bs) of
                        None \<Rightarrow> Inl URIError
                      | Some v \<Rightarrow> prepend v (decodeURIComponent r'))))))"
  by pat_completeness auto
termination
proof (relation "measure length")
  show "wf (measure length)" by simp
next
  fix c :: nat and cs :: jsstring
  show "(cs, c # cs) \<in> measure length" by simp
next
  fix c :: nat and cs :: jsstring and x2 :: "nat \<times> jsstring" and b r
  assume "take_octet (c # cs) = Some x2" and "(b, r) = x2"
  then have "take_octet (c # cs) = Some (b, r)" by simp
  from take_octet_shorter [OF this] show "(r, c # cs) \<in> measure length" by simp
next
  fix c :: nat and cs :: jsstring and x2 :: "nat \<times> jsstring" and b r
    and x2a :: "nat list \<times> jsstring" and bs r' and v :: nat
  assume "take_octet (c # cs) = Some x2" and "(b, r) = x2"
    and "take_octets (leading_ones b - 1) r = Some x2a" and "(bs, r') = x2a"
  then have one: "take_octet (c # cs) = Some (b, r)"
    and more: "take_octets (leading_ones b - 1) r = Some (bs, r')" by simp_all
  from take_octet_shorter [OF one] take_octets_shorter [OF more]
  show "(r', c # cs) \<in> measure length" by simp
qed

section \<open>The guest token of the URL\<close>

text \<open>
  \<open>new URLSearchParams(window.location.search)\<close> is carried as the list of its name-value
  pairs in the order of the query string, and \<open>params.get(name)\<close> returns the first value
  of that name, or \<open>null\<close> (here \<open>None\<close>).
\<close>

type_synonym params = "(jsstring \<times> jsstring) list"

definition params_get :: "params \<Rightarrow> jsstring \<Rightarrow> jsstring option" where
  "params_get ps name = map_of ps name"

text \<open>\<open>a ?? b\<close>\<close>

definition nullish :: "'a option \<Rightarrow> 'a option \<Rightarrow> 'a option" where
  "nullish a b = (case a of None \<Rightarrow> b | Some v \<Rightarrow> Some v)"

definition getGuestTokenFromUrl :: "params \<Rightarrow> js_error + jsstring option" where
  "getGuestTokenFromUrl ps =
     (let raw = nullish (params_get ps (lit ''guest''))
                 (nullish (params_get ps (lit ''token''))
                   (nullish (params_get ps (lit ''code''))
                     (params_get ps (lit ''ticket''))))
      in case raw of
           None \<Rightarrow> Inr None
         | Some r \<Rightarrow>
             if r = [] then Inr None
             else
               (case decodeURIComponent (replace_plus r) of
                  Inl e \<Rightarrow> Inl e
                | Inr d \<Rightarrow>
                    (let decoded = trim d
                     in if decoded = [] then Inr None else Inr (Some decoded))))"

text \<open>
  The parameter that decides: the first one present in the order guest, token, code,
  ticket, whatever its value.
\<close>

definition priority :: "jsstring list" where
  "priority = [lit ''guest'', lit ''token'', lit ''code'', lit ''ticket'']"

definition first_present :: "params \<Rightarrow> jsstring option" where
  "first_present ps =
     (case filter (\<lambda>name. params_get ps name \<noteq> None) priority of
        [] \<Rightarrow> None
      | name # _ \<Rightarrow> params_get ps name)"

section \<open>The guest-token file\<close>

text \<open>
  What \<open>response.json()\<close> can return. A number is carried as the text \<open>Number::toString\<close>
  gives for it, which is all this program observes of a number in the token file: the
  text is \<open>0\<close> or \<open>NaN\<close> exactly when the number is falsy. An object is the list of its own
  properties; where a key is repeated, the first binding is the property. The result of
  reading a property is a \<open>json option\<close>, \<open>None\<close> for \<open>undefined\<close>.
\<close>

datatype json =
    JNull
  | JBool bool
  | JNum jsstring
  | JStr jsstring
  | JArr "json list"
  | JObj "(jsstring \<times> json) list"

fun truthy :: "json option \<Rightarrow> bool" where
  "truthy None = False"
| "truthy (Some JNull) = False"
| "truthy (Some (JBool b)) = b"
| "truthy (Some (JNum t)) = (t \<noteq> lit ''0'' \<and> t \<noteq> lit ''NaN'')"
| "truthy (Some (JStr s)) = (s \<noteq> [])"
| "truthy (Some (JArr xs)) = True"
| "truthy (Some (JObj kvs)) = True"

text \<open>\<open>typeof v === "object"\<close>, which holds of \<open>null\<close> and of arrays too.\<close>

fun typeof_object :: "json option \<Rightarrow> bool" where
  "typeof_object (Some JNull) = True"
| "typeof_object (Some (JArr xs)) = True"
| "typeof_object (Some (JObj kvs)) = True"
| "typeof_object _ = False"

text \<open>
  Reading one of the properties the source names (\<open>token\<close>, \<open>name\<close>, \<open>tokens\<close>): the own
  property of an object, and \<open>undefined\<close> otherwise, since neither \<open>Object.prototype\<close> nor
  \<open>Array.prototype\<close> defines these names.
\<close>

fun field :: "json \<Rightarrow> jsstring \<Rightarrow> json option" where
  "field (JObj kvs) k = map_of kvs k"
| "field _ k = None"

text \<open>
  \<open>String(v)\<close>. An array is joined with commas, \<open>null\<close> elements giving the empty string.
  An object without an own \<open>toString\<close> prints as \<open>[object Object]\<close>; an own \<open>toString\<close>
  parsed from JSON is not callable, \<open>valueOf\<close> then gives no primitive either, and the
  conversion throws \<open>TypeError\<close>.
\<close>

fun join_comma :: "jsstring list \<Rightarrow> jsstring" where
  "join_comma [] = []"
| "join_comma [s] = s"
| "join_comma (s # t # ss) = s @ 0x2C # join_comma (t # ss)"

fun collect :: "(js_error + 'a) list \<Rightarrow> js_error + 'a list" where
  "collect [] = Inr []"
| "collect (Inl e # rs) = Inl e"
| "collect (Inr x # rs) = (case collect rs of Inl e \<Rightarrow> Inl e | Inr xs \<Rightarrow> Inr (x # xs))"

fun js_String :: "json option \<Rightarrow> js_error + jsstring" where
  "js_String None = Inr (lit ''undefined'')"
| "js_String (Some JNull) = Inr (lit ''null'')"
| "js_String (Some (JBool b)) = Inr (if b then lit ''true'' else lit ''false'')"
| "js_String (Some (JNum t)) = Inr t"
| "js_String (Some (JStr s)) = Inr s"
| "js_String (Some (JArr xs)) =
     (case collect (map (\<lambda>x. if x = JNull then Inr [] else js_String (Some x)) xs) of
        Inl e \<Rightarrow> Inl e
      | Inr parts \<Rightarrow> Inr (join_comma parts))"
| "js_String (Some (JObj kvs)) =
     (if map_of kvs (lit ''toString'') = None then Inr (lit ''[object Object]'')
      else Inl TypeError)"

text \<open>
  The normalized map is a plain object \<open>{}\<close> whose own properties are all strings.
  \<open>map[k] = v\<close> with a string \<open>v\<close> creates or overwrites the own property \<open>k\<close>, except for
  \<open>__proto__\<close>: that assignment reaches the setter of \<open>Object.prototype\<close>, which ignores a
  value that is neither an object nor \<open>null\<close>.
\<close>

type_synonym tokmap = "jsstring \<rightharpoonup> jsstring"

definition set_prop :: "tokmap \<Rightarrow> jsstring \<Rightarrow> jsstring \<Rightarrow> tokmap" where
  "set_prop m k v = (if k = lit ''__proto__'' then m else m(k \<mapsto> v))"

text \<open>The callback of the array branch.\<close>

definition add_entry :: "tokmap \<Rightarrow> json \<Rightarrow> js_error + tokmap" where
  "add_entry m entry =
     (if truthy (Some entry) \<and> typeof_object (Some entry) then
        (let token = field entry (lit ''token''); name = field entry (lit ''name'')
         in if truthy token \<and> truthy name then
              (case js_String token of
                 Inl e \<Rightarrow> Inl e
               | Inr k \<Rightarrow>
                   (case js_String name of
                      Inl e \<Rightarrow> Inl e
                    | Inr v \<Rightarrow> Inr (set_prop m k v)))
            else Inr m)
      else Inr m)"

fun reduce_entries :: "json list \<Rightarrow> tokmap \<Rightarrow> js_error + tokmap" where
  "reduce_entries [] m = Inr m"
| "reduce_entries (entry # rest) m =
     (case add_entry m entry of
        Inl e \<Rightarrow> Inl e
      | Inr m' \<Rightarrow> reduce_entries rest m')"

text \<open>The decimal text of an array index.\<close>

fun dec :: "nat \<Rightarrow> jsstring" where
  "dec n = (if n < 10 then [0x30 + n] else dec (n div 10) @ [0x30 + n mod 10])"

declare dec.simps [simp del]

text \<open>\<open>Object.keys(source)\<close> and \<open>source[key]\<close> for one of these keys.\<close>

fun own_keys :: "json \<Rightarrow> jsstring list" where
  "own_keys (JObj kvs) = remdups (map fst kvs)"
| "own_keys (JArr xs) = map dec [0..<length xs]"
| "own_keys _ = []"

fun own_get :: "json \<Rightarrow> jsstring \<Rightarrow> json option" where
  "own_get (JObj kvs) k = map_of kvs k"
| "own_get (JArr xs) k = map_of (zip (map dec [0..<length xs]) xs) k"
| "own_get _ k = None"

text \<open>The callback of the mapping branch.\<close>

definition add_key :: "json \<Rightarrow> tokmap \<Rightarrow> jsstring \<Rightarrow> tokmap" where
  "add_key source m key =
     (case own_get source key of
        Some (JStr v) \<Rightarrow> if trim v \<noteq> [] then set_prop m key (trim v) else m
      | _ \<Rightarrow> m)"

fun reduce_keys :: "json \<Rightarrow> jsstring list \<Rightarrow> tokmap \<Rightarrow> tokmap" where
  "reduce_keys source [] m = m"
| "reduce_keys source (key # rest) m = reduce_keys source rest (add_key source m key)"

definition token_source :: "json \<Rightarrow> json" where
  "token_source raw =
     (case field raw (lit ''tokens'') of
        None \<Rightarrow> raw
      | Some t \<Rightarrow> if truthy (Some t) \<and> typeof_object (Some t) then t else raw)"

fun normalizeGuestTokens :: "json \<Rightarrow> js_error + tokmap" where
  "normalizeGuestTokens raw =
     (if \<not> truthy (Some raw) then Inr Map.empty
      else
        (case raw of
           JArr entries \<Rightarrow> reduce_entries entries Map.empty
         | JObj kvs \<Rightarrow>
             Inr (reduce_keys (token_source raw) (own_keys (token_source raw)) Map.empty)
         | _ \<Rightarrow> Inr Map.empty))"

section \<open>The greeting\<close>

text \<open>
  \<open>tokens[token]\<close> on the normalized map: an own property, or else a member inherited
  from \<open>Object.prototype\<close>, or else \<open>undefined\<close>. The inherited members are functions and,
  for \<open>__proto__\<close>, the prototype object: all truthy.
\<close>

datatype name_val = NoName | Name jsstring | Builtin jsstring

definition Object_prototype_names :: "jsstring list" where
  "Object_prototype_names =
     [lit ''constructor'', lit ''hasOwnProperty'', lit ''isPrototypeOf'',
      lit ''propertyIsEnumerable'', lit ''toLocaleString'', lit ''toString'',
      lit ''valueOf'', lit ''__proto__'', lit ''__defineGetter__'',
      lit ''__defineSetter__'', lit ''__lookupGetter__'', lit ''__lookupSetter__'']"

definition lookup_token :: "tokmap \<Rightarrow> jsstring \<Rightarrow> name_val" where
  "lookup_token tokens token =
     (case tokens token of
        Some v \<Rightarrow> Name v
      | None \<Rightarrow> if token \<in> set Object_prototype_names then Builtin token else NoName)"

fun name_truthy :: "name_val \<Rightarrow> bool" where
  "name_truthy NoName = False"
| "name_truthy (Name s) = (s \<noteq> [])"
| "name_truthy (Builtin k) = True"

text \<open>The text of a value inside a template literal.\<close>

fun name_text :: "engine \<Rightarrow> name_val \<Rightarrow> jsstring" where
  "name_text E NoName = lit ''null''"
| "name_text E (Name s) = s"
| "name_text E (Builtin k) = builtinText E k"

text \<open>
  The page: the greeting element, the list containers by selector with their children,
  the templates present, and the expand button that \<open>#event-template\<close> holds, if it
  holds one. \<open>document.querySelector\<close> of an absent element is \<open>None\<close>. Whatever else
  the document holds (the title, the links, the rows of renderers that are not embedded
  here) is the extension of the record, which the functions below never touch.
\<close>

record element =
  hidden :: bool
  textContent :: jsstring

record expand_button =
  button_hidden :: bool
  button_text :: jsstring
  button_expanded :: "string option"

record 'i page =
  greeting :: "element option"
  containers :: "string \<rightharpoonup> 'i list"
  templates :: "string list"
  template_expand :: "expand_button option"

definition renderGreeting ::
  "engine \<Rightarrow> tokmap \<Rightarrow> params \<Rightarrow> ('i, 'z) page_scheme
     \<Rightarrow> js_error + (('i, 'z) page_scheme \<times> name_val)" where
  "renderGreeting E tokens ps pg =
     (case greeting pg of
        None \<Rightarrow> Inr (pg, NoName)
      | Some greetingEl \<Rightarrow>
          (case getGuestTokenFromUrl ps of
             Inl e \<Rightarrow> Inl e
           | Inr None \<Rightarrow>
               Inr (pg\<lparr>greeting := Some (greetingEl\<lparr>hidden := True, textContent := []\<rparr>)\<rparr>,
                    NoName)
           | Inr (Some token) \<Rightarrow>
               (let guestName = lookup_token tokens token
                in if \<not> name_truthy guestName then
                     Inr (pg\<lparr>greeting :=
                            Some (greetingEl\<lparr>hidden := True, textContent := []\<rparr>)\<rparr>,
                          NoName)
                   else
                     Inr (pg\<lparr>greeting :=
                            Some (greetingEl\<lparr>hidden := False,
                              textContent := lit ''Welcome to the party, ''
                                @ name_text E guestName @ lit ''!''\<rparr>)\<rparr>,
                          guestName))))"

section \<open>Name matching\<close>

text \<open>The characters that \<open>.replace(/[U+0300-U+036F]/g, "")\<close> removes.\<close>

definition is_mark :: "nat \<Rightarrow> bool" where
  "is_mark c \<longleftrightarrow> 0x300 \<le> c \<and> c \<le> 0x36F"

definition strip_marks :: "jsstring \<Rightarrow> jsstring" where
  "strip_marks s = filter (\<lambda>c. \<not> is_mark c) s"

text \<open>
  \<open>normalizeName\<close> receives a name of the feed, or what \<open>renderGreeting\<close> returned:
  \<open>null\<close>, a name of the token map, or a member inherited from \<open>Object.prototype\<close>,
  which \<open>String\<close> turns into the engine's text for it.
\<close>

definition normalizeName :: "engine \<Rightarrow> name_val \<Rightarrow> jsstring" where
  "normalizeName E v =
     (case v of
        NoName \<Rightarrow> []
      | _ \<Rightarrow> trim (toLowerCase E (strip_marks (nfkd E (name_text E v)))))"

text \<open>
  The test of every renderer:
  \<open>highlightedName && normalizeName(x) === normalizeName(highlightedName)\<close>.
\<close>

definition highlights :: "engine \<Rightarrow> name_val \<Rightarrow> jsstring \<Rightarrow> bool" where
  "highlights E highlightedName dataName \<longleftrightarrow>
     name_truthy highlightedName
     \<and> normalizeName E (Name dataName) = normalizeName E highlightedName"

section \<open>The feed and the rendered nodes\<close>

text \<open>
  The records of the published feed, with the fields the renderers read. A field the
  source guards with \<open>?.\<close> or \<open>||\<close> is optional.
\<close>

record award =
  award_player :: jsstring
  award_reason :: jsstring
  award_points :: int

record event =
  event_name :: jsstring
  event_date :: "jsstring option"
  event_awards :: "award list option"

record game_count =
  gc_game :: jsstring
  gc_count :: int

record podiums =
  first_places :: "int option"
  second_places :: "int option"
  third_places :: "int option"

record activity_entry =
  entry_player :: jsstring
  totalPlays :: int
  games :: "game_count list option"
  entry_podiums :: "podiums option"

text \<open>
  What a renderer appends to a container: a message element made with
  \<open>document.createElement\<close>, a clone of the event template, a clone of the activity
  card template, or (\<open>Node\<close>) a node of a renderer that is not embedded here. The click
  listener of the expand button is not part of the rendered state.
\<close>

record award_view =
  view_player :: jsstring
  view_reason :: jsstring
  view_points :: jsstring
  view_highlighted :: bool
  view_collapsed :: bool

datatype award_item = AwardPlaceholder jsstring | AwardNode award_view

record event_view =
  timeline_title :: jsstring
  timeline_date :: jsstring
  timeline_awards :: "award_item list"
  timeline_expand :: "expand_button option"

record card_view =
  activity_player :: jsstring
  activity_total :: jsstring
  activity_stats :: "(jsstring \<times> jsstring) list"
  card_highlight :: bool

datatype 'x item =
    Message string string jsstring
  | EventItem event_view
  | ActivityCard card_view
  | Node 'x

section \<open>The event timeline\<close>

definition asLocaleDate :: "engine \<Rightarrow> jsstring option \<Rightarrow> jsstring" where
  "asLocaleDate E v =
     (case v of
        None \<Rightarrow> []
      | Some s \<Rightarrow>
          if s = [] then []
          else (case localeDate E s of None \<Rightarrow> s | Some t \<Rightarrow> t))"

text \<open>\<open>xs.slice(0, n)\<close> for an integer \<open>n\<close>: a negative end counts from the end of the list.\<close>

definition slice0 :: "'a list \<Rightarrow> int \<Rightarrow> 'a list" where
  "slice0 xs n = (if n < 0 then take (nat (int (length xs) + n)) xs else take (nat n) xs)"

record event_options =
  containerSelector :: string
  limit :: "int option"
  emptyMessage :: jsstring
  awardPreviewLimit :: "int option"
  allowExpand :: bool

text \<open>The defaults of the destructuring in \<open>renderEvents\<close>.\<close>

definition default_event_options :: event_options where
  "default_event_options =
     \<lparr>containerSelector = ''#events-timeline'',
      limit = None,
      emptyMessage = lit ''No points logged yet. Awards will show here automatically.'',
      awardPreviewLimit = None,
      allowExpand = False\<rparr>"

text \<open>
  The options of the two calls in \<open>init\<close>: the preview in \<open>#events-timeline\<close> and, on a
  page that has \<open>#all-events-list\<close>, the full list.
\<close>

definition preview_options :: event_options where
  "preview_options =
     default_event_options\<lparr>limit := Some 5, awardPreviewLimit := Some 5, allowExpand := True\<rparr>"

definition full_options :: event_options where
  "full_options =
     default_event_options
       \<lparr>containerSelector := ''#all-events-list'',
        emptyMessage := lit ''No points logged yet. Awards will show here automatically.'',
        allowExpand := False\<rparr>"

definition render_award ::
  "engine \<Rightarrow> name_val \<Rightarrow> bool \<Rightarrow> nat \<Rightarrow> nat \<times> award \<Rightarrow> award_item" where
  "render_award E highlightedName expand previewCount ia =
     (case ia of (idx, a) \<Rightarrow>
        AwardNode
          \<lparr>view_player = award_player a,
           view_reason = award_reason a,
           view_points = 0x2B # numberText E (award_points a),
           view_highlighted = highlights E highlightedName (award_player a),
           view_collapsed = (expand \<and> previewCount \<le> idx)\<rparr>)"

definition is_collapsed :: "award_item \<Rightarrow> bool" where
  "is_collapsed it = (case it of AwardPlaceholder t \<Rightarrow> False | AwardNode v \<Rightarrow> view_collapsed v)"

definition render_event ::
  "engine \<Rightarrow> name_val \<Rightarrow> event_options \<Rightarrow> expand_button option \<Rightarrow> event \<Rightarrow> event_view" where
  "render_event E highlightedName opts expandButton ev =
     (case event_awards ev of
        None \<Rightarrow>
          \<lparr>timeline_title = event_name ev,
           timeline_date = asLocaleDate E (event_date ev),
           timeline_awards = [AwardPlaceholder (lit ''Awards logged, details pending.'')],
           timeline_expand = map_option (\<lambda>b. b\<lparr>button_hidden := True\<rparr>) expandButton\<rparr>
      | Some awards \<Rightarrow>
          if awards = [] then
            \<lparr>timeline_title = event_name ev,
             timeline_date = asLocaleDate E (event_date ev),
             timeline_awards = [AwardPlaceholder (lit ''Awards logged, details pending.'')],
             timeline_expand = map_option (\<lambda>b. b\<lparr>button_hidden := True\<rparr>) expandButton\<rparr>
          else
            (let previewCount =
                   (case awardPreviewLimit opts of
                      Some n \<Rightarrow> if allowExpand opts then nat (max 0 n) else length awards
                    | None \<Rightarrow> length awards);
                 rendered = map (render_award E highlightedName (allowExpand opts) previewCount)
                              (enumerate 0 awards);
                 hiddenCount = length (filter is_collapsed rendered)
             in \<lparr>timeline_title = event_name ev,
                 timeline_date = asLocaleDate E (event_date ev),
                 timeline_awards = rendered,
                 timeline_expand =
                   (if allowExpand opts \<and> 0 < hiddenCount then
                      map_option (\<lambda>b. b\<lparr>button_hidden := False,
                          button_text :=
                            (if hiddenCount = 1 then lit ''Show 1 more''
                             else lit ''Show '' @ numberText E (int hiddenCount) @ lit '' more''),
                          button_expanded := Some ''false''\<rparr>) expandButton
                    else
                      map_option (\<lambda>b. b\<lparr>button_hidden := True, button_text := []\<rparr>)
                        expandButton)\<rparr>))"

definition renderEvents ::
  "engine \<Rightarrow> event list \<Rightarrow> name_val \<Rightarrow> event_options \<Rightarrow> ('x item, 'z) page_scheme
     \<Rightarrow> ('x item, 'z) page_scheme" where
  "renderEvents E events highlightedName opts pg =
     (if containers pg (containerSelector opts) = None
         \<or> ''#event-template'' \<notin> set (templates pg)
         \<or> ''#timeline-award-template'' \<notin> set (templates pg)
      then pg
      else
        (let items = (case limit opts of Some n \<Rightarrow> slice0 events n | None \<Rightarrow> events)
         in if items = [] then
              pg\<lparr>containers := (containers pg)(containerSelector opts \<mapsto>
                    [Message ''li'' ''timeline-item'' (emptyMessage opts)])\<rparr>
            else
              pg\<lparr>containers := (containers pg)(containerSelector opts \<mapsto>
                    map (\<lambda>ev. EventItem
                          (render_event E highlightedName opts (template_expand pg) ev))
                      items)\<rparr>))"

text \<open>
  \<open>renderEvents\<close> of \<open>public/app.js\<close>: one argument, the container \<open>#events-timeline\<close>,
  neither template guarded, and the first eight events. The clone of \<open>#event-template\<close>
  gets its title, its date and its awards; whatever else the template holds, an expand
  button included, is appended as the template has it.
\<close>

definition app_render_event :: "engine \<Rightarrow> expand_button option \<Rightarrow> event \<Rightarrow> event_view" where
  "app_render_event E expandButton ev =
     \<lparr>timeline_title = event_name ev,
      timeline_date = asLocaleDate E (event_date ev),
      timeline_awards =
        (case event_awards ev of
           None \<Rightarrow> [AwardPlaceholder (lit ''Awards logged, details pending.'')]
         | Some awards \<Rightarrow>
             if awards = [] then [AwardPlaceholder (lit ''Awards logged, details pending.'')]
             else map (\<lambda>a. AwardNode
                        \<lparr>view_player = award_player a,
                         view_reason = award_reason a,
                         view_points = 0x2B # numberText E (award_points a),
                         view_highlighted = False,
                         view_collapsed = False\<rparr>) awards),
      timeline_expand = expandButton\<rparr>"

definition app_renderEvents ::
  "engine \<Rightarrow> event list \<Rightarrow> ('x item, 'z) page_scheme
     \<Rightarrow> js_error + ('x item, 'z) page_scheme" where
  "app_renderEvents E events pg =
     (if containers pg ''#events-timeline'' = None then Inl TypeError
      else if events = [] then
        Inr (pg\<lparr>containers := (containers pg)(''#events-timeline'' \<mapsto>
               [Message ''li'' ''timeline-item''
                  (lit ''No events logged yet. Awards will show here automatically.'')])\<rparr>)
      else if ''#event-template'' \<notin> set (templates pg)
              \<or> (''#timeline-award-template'' \<notin> set (templates pg)
                  \<and> (\<exists>ev \<in> set (slice0 events 8).
                        case event_awards ev of None \<Rightarrow> False | Some awards \<Rightarrow> awards \<noteq> []))
      then Inl TypeError
      else
        Inr (pg\<lparr>containers := (containers pg)(''#events-timeline'' \<mapsto>
               map (\<lambda>ev. EventItem (app_render_event E (template_expand pg) ev))
                 (slice0 events 8))\<rparr>))"

section \<open>Player activity\<close>

definition or_zero :: "int option \<Rightarrow> int" where
  "or_zero p = (case p of None \<Rightarrow> 0 | Some n \<Rightarrow> n)"

definition render_card :: "engine \<Rightarrow> name_val \<Rightarrow> activity_entry \<Rightarrow> card_view" where
  "render_card E highlightedName entry =
     (let gs = (case games entry of None \<Rightarrow> [] | Some g \<Rightarrow> g);
          game_stats =
            (if gs \<noteq> [] then
               map (\<lambda>g. (gc_game g, numberText E (gc_count g) @ [0xD7])) (take 3 gs)
             else [(lit ''Games'', lit ''None yet'')]);
          ps = (case entry_podiums entry of
                  None \<Rightarrow> \<lparr>first_places = None, second_places = None, third_places = None\<rparr>
                | Some p \<Rightarrow> p);
          podiumTotal = or_zero (first_places ps) + or_zero (second_places ps)
                        + or_zero (third_places ps);
          podium_stats =
            (if 0 < podiumTotal then
               [(lit ''Podiums'',
                 numberText E (or_zero (first_places ps)) @ 0x2F
                   # numberText E (or_zero (second_places ps)) @ 0x2F
                   # numberText E (or_zero (third_places ps)))]
             else [])
      in \<lparr>activity_player = entry_player entry,
          activity_total = numberText E (totalPlays entry)
            @ (if totalPlays entry = 1 then lit '' play'' else lit '' plays''),
          activity_stats = game_stats @ podium_stats,
          card_highlight = highlights E highlightedName (entry_player entry)\<rparr>)"

text \<open>\<open>entry.totalPlays > 0 || entry.games?.length\<close>\<close>

definition meaningful :: "activity_entry \<Rightarrow> bool" where
  "meaningful entry \<longleftrightarrow>
     0 < totalPlays entry \<or> (case games entry of None \<Rightarrow> False | Some g \<Rightarrow> g \<noteq> [])"

definition renderPlayerActivity ::
  "engine \<Rightarrow> activity_entry list \<Rightarrow> name_val \<Rightarrow> ('x item, 'z) page_scheme
     \<Rightarrow> ('x item, 'z) page_scheme" where
  "renderPlayerActivity E activity highlightedName pg =
     (if containers pg ''#player-activity'' = None
         \<or> ''#activity-card-template'' \<notin> set (templates pg)
      then pg
      else
        (let shown = filter meaningful activity
         in if shown = [] then
              pg\<lparr>containers := (containers pg)(''#player-activity'' \<mapsto>
                    [Message ''p'' ''timeline-notes''
                       (lit ''Log plays to build up player activity stats.'')])\<rparr>
            else
              pg\<lparr>containers := (containers pg)(''#player-activity'' \<mapsto>
                    map (\<lambda>entry. ActivityCard (render_card E highlightedName entry)) shown)\<rparr>))"

section \<open>Loading the page\<close>

text \<open>One block of \<open>handleError\<close>: the container, if present, keeps one message element.\<close>

definition replace_with ::
  "string \<Rightarrow> 'x item \<Rightarrow> ('x item, 'z) page_scheme \<Rightarrow> ('x item, 'z) page_scheme" where
  "replace_with sel msg pg =
     (if containers pg sel = None then pg
      else pg\<lparr>containers := (containers pg)(sel \<mapsto> [msg])\<rparr>)"

definition handleError :: "('x item, 'z) page_scheme \<Rightarrow> ('x item, 'z) page_scheme" where
  "handleError pg =
     replace_with ''#player-activity''
       (Message ''p'' ''timeline-notes'' (lit ''Player activity unavailable.''))
     (replace_with ''#all-plays-list''
       (Message ''li'' ''timeline-item'' (lit ''Could not load plays.''))
     (replace_with ''#all-events-list''
       (Message ''li'' ''timeline-item'' (lit ''Could not load point log.''))
     (replace_with ''#events-timeline''
       (Message ''li'' ''timeline-item'' (lit ''Could not load point log.''))
     (replace_with ''#recent-plays''
       (Message ''li'' ''timeline-item'' (lit ''Could not load plays.''))
     (replace_with ''#leaderboard-list''
       (Message ''li'' ''leaderboard-item error''
          (lit (''We could not load the leaderboard right now. ''
                @ ''Refresh to try again or contact Lorenzo.'')))
       pg)))))"

text \<open>
  \<open>init\<close>. Each fetch either fails (\<open>Inl\<close>: the network, a status that is not ok, or a
  body that is not JSON) or delivers the parsed body. \<open>loadGuestTokens\<close> is the first
  \<open>try\<close> block with its \<open>catch\<close>, which keeps the initial \<open>{}\<close>. The statements of the
  second \<open>try\<close> block after the fetch are the parameter \<open>body\<close>, a function of the feed,
  of the highlighted name and of the whole document: it returns the document as it left
  it and the exception it threw, if any. An exception of \<open>renderGreeting\<close> is outside
  both \<open>try\<close> blocks and rejects the promise of \<open>init\<close> (\<open>Inl\<close>).
\<close>

definition loadGuestTokens :: "'e + json \<Rightarrow> tokmap" where
  "loadGuestTokens tokens_response =
     (case tokens_response of
        Inl err \<Rightarrow> Map.empty
      | Inr tokensData \<Rightarrow>
          (case normalizeGuestTokens tokensData of
             Inl err \<Rightarrow> Map.empty
           | Inr m \<Rightarrow> m))"

definition init ::
  "engine
     \<Rightarrow> ('f \<Rightarrow> name_val \<Rightarrow> ('x item, 'z) page_scheme
           \<Rightarrow> ('x item, 'z) page_scheme \<times> js_error option)
     \<Rightarrow> params \<Rightarrow> 'e + json \<Rightarrow> 'e + 'f \<Rightarrow> ('x item, 'z) page_scheme
     \<Rightarrow> js_error + ('x item, 'z) page_scheme" where
  "init E body ps tokens_response feed_response pg =
     (let guestTokens = loadGuestTokens tokens_response
      in case renderGreeting E guestTokens ps pg of
           Inl err \<Rightarrow> Inl err
         | Inr (pg1, highlightedName) \<Rightarrow>
             (case feed_response of
                Inl err \<Rightarrow> Inr (handleError pg1)
              | Inr data \<Rightarrow>
                  (case body data highlightedName pg1 of
                     (pg2, None) \<Rightarrow> Inr pg2
                   | (pg2, Some err) \<Rightarrow> Inr (handleError pg2))))"

section \<open>Avatars\<close>

subsection \<open>encodeURIComponent\<close>

text \<open>
  The \<open>Encode\<close> operation of ECMA-262: letters, digits and \<open>-_.!~*'()\<close> are kept, every
  other code point is written as the escapes of its UTF-8 octets, and an unpaired
  surrogate throws \<open>URIError\<close>.
\<close>

definition unreserved :: "nat \<Rightarrow> bool" where
  "unreserved c \<longleftrightarrow>
     (0x41 \<le> c \<and> c \<le> 0x5A) \<or> (0x61 \<le> c \<and> c \<le> 0x7A) \<or> (0x30 \<le> c \<and> c \<le> 0x39)
     \<or> c \<in> set [0x2D, 0x5F, 0x2E, 0x21, 0x7E, 0x2A, 0x27, 0x28, 0x29]"

definition is_surrogate :: "nat \<Rightarrow> bool" where
  "is_surrogate c \<longleftrightarrow> 0xD800 \<le> c \<and> c \<le> 0xDFFF"

definition utf8_encode :: "nat \<Rightarrow> nat list" where
  "utf8_encode c =
     (if c < 0x80 then [c]
      else if c < 0x800 then [0xC0 + c div 64, 0x80 + c mod 64]
      else if c < 0x10000 then [0xE0 + c div 4096, 0x80 + c div 64 mod 64, 0x80 + c mod 64]
      else [0xF0 + c div 262144, 0x80 + c div 4096 mod 64, 0x80 + c div 64 mod 64,
            0x80 + c mod 64])"

definition hex_char :: "nat \<Rightarrow> nat" where
  "hex_char n = (if n < 10 then 0x30 + n else 0x41 + (n - 10))"

definition escape_octet :: "nat \<Rightarrow> jsstring" where
  "escape_octet b = [0x25, hex_char (b div 16), hex_char (b mod 16)]"

fun encodeURIComponent :: "jsstring \<Rightarrow> js_error + jsstring" where
  "encodeURIComponent [] = Inr []"
| "encodeURIComponent (c # cs) =
     (if unreserved c then prepend c (encodeURIComponent cs)
      else if is_surrogate c then Inl URIError
      else
        (case encodeURIComponent cs of
           Inl e \<Rightarrow> Inl e
         | Inr r \<Rightarrow> Inr (concat (map escape_octet (utf8_encode c)) @ r)))"

subsection \<open>The candidate files\<close>

text \<open>\<open>.replace(/\s+/g, "_")\<close>: every maximal run of white space becomes one underscore.\<close>

function replace_spaces :: "jsstring \<Rightarrow> jsstring" where
  "replace_spaces [] = []"
| "replace_spaces (c # cs) =
     (if is_space c then 0x5F # replace_spaces (dropWhile is_space cs)
      else c # replace_spaces cs)"
  by pat_completeness auto
termination
  by (relation "measure length") (auto simp: length_dropWhile_le less_Suc_eq_le)

text \<open>The loop over \<open>bases\<close> with its set \<open>seen\<close>.\<close>

fun unique_bases :: "engine \<Rightarrow> jsstring list \<Rightarrow> jsstring list \<Rightarrow> jsstring list" where
  "unique_bases E [] seen = []"
| "unique_bases E (base # rest) seen =
     (if base = [] then unique_bases E rest seen
      else if toLowerCase E base \<in> set seen then unique_bases E rest seen
      else base # unique_bases E rest (toLowerCase E base # seen))"

definition getAvatarBases :: "engine \<Rightarrow> jsstring \<Rightarrow> js_error + jsstring list" where
  "getAvatarBases E playerName =
     (if playerName = [] then Inr []
      else
        (let trimmed = trim playerName
         in case encodeURIComponent trimmed of
              Inl e \<Rightarrow> Inl e
            | Inr encoded \<Rightarrow>
                (let underscored = replace_spaces trimmed;
                     ascii = replace_spaces (normalizeName E (Name trimmed))
                 in Inr (unique_bases E [trimmed, encoded, underscored, ascii] []))))"

definition extensions :: "jsstring list" where
  "extensions = [lit ''png'', lit ''jpg'', lit ''jpeg'', lit ''webp'']"

definition avatar_sources :: "jsstring list \<Rightarrow> jsstring list" where
  "avatar_sources bases =
     concat (map (\<lambda>base. map (\<lambda>ext. lit ''./avatars/'' @ base @ 0x2E # ext) extensions) bases)"

text \<open>
  The image element with the handler \<open>applyAvatar\<close> installs on it: the closure
  \<open>onError\<close> is the list of the sources it has not tried yet (\<open>sources\<close> from \<open>index\<close> on).
\<close>

record img =
  img_hidden :: bool
  img_src :: "jsstring option"
  img_alt :: jsstring
  avatarErrorHandler :: "jsstring list option"

record wrapper =
  wrapper_hidden :: bool

definition applyAvatar ::
  "engine \<Rightarrow> img option \<Rightarrow> jsstring \<Rightarrow> wrapper option
     \<Rightarrow> js_error + (img option \<times> wrapper option)" where
  "applyAvatar E avatar playerName wrap =
     (case avatar of
        None \<Rightarrow> Inr (None, wrap)
      | Some i \<Rightarrow>
          (case getAvatarBases E playerName of
             Inl e \<Rightarrow> Inl e
           | Inr bases \<Rightarrow>
               (case avatar_sources bases of
                  [] \<Rightarrow>
                    Inr (Some (i\<lparr>img_hidden := True, img_src := None, img_alt := [],
                                 avatarErrorHandler := None\<rparr>),
                         map_option (\<lambda>w. w\<lparr>wrapper_hidden := True\<rparr>) wrap)
                | first # others \<Rightarrow>
                    Inr (Some (i\<lparr>img_hidden := False, img_src := Some first,
                                 img_alt := (if playerName \<noteq> []
                                             then playerName @ 0x27 # lit ''s avatar'' else []),
                                 avatarErrorHandler := Some others\<rparr>),
                         map_option (\<lambda>w. w\<lparr>wrapper_hidden := False\<rparr>) wrap))))"

text \<open>One \<open>error\<close> event on the image: the installed handler runs, if there is one.\<close>

definition on_error :: "img \<times> wrapper option \<Rightarrow> img \<times> wrapper option" where
  "on_error st =
     (case st of (i, wrap) \<Rightarrow>
        (case avatarErrorHandler i of
           None \<Rightarrow> (i, wrap)
         | Some [] \<Rightarrow>
             (i\<lparr>img_hidden := True, img_src := None, img_alt := [],
                avatarErrorHandler := None\<rparr>,
              map_option (\<lambda>w. w\<lparr>wrapper_hidden := True\<rparr>) wrap)
         | Some (next # others) \<Rightarrow>
             (i\<lparr>img_src := Some next, avatarErrorHandler := Some others\<rparr>, wrap)))"

text \<open>
  The browser loads the source of the image and fires \<open>error\<close> when the load fails;
  \<open>loads\<close> tells which files load. \<open>probes\<close> is the list of the sources the browser
  requests, in order, and \<open>settle\<close> the state once no event is pending.
\<close>

definition pending :: "img \<Rightarrow> nat" where
  "pending i = (case avatarErrorHandler i of None \<Rightarrow> 0 | Some rest \<Rightarrow> Suc (length rest))"

lemma on_error_pending:
  "avatarErrorHandler i = Some rest \<Longrightarrow> pending (fst (on_error (i, wrap))) < pending i"
  by (cases rest) (simp_all add: on_error_def pending_def)

function settle :: "(jsstring \<Rightarrow> bool) \<Rightarrow> img \<times> wrapper option \<Rightarrow> img \<times> wrapper option" where
  "settle loads (i, wrap) =
     (case img_src i of
        None \<Rightarrow> (i, wrap)
      | Some s \<Rightarrow>
          if loads s then (i, wrap)
          else
            (case avatarErrorHandler i of
               None \<Rightarrow> (i, wrap)
             | Some rest \<Rightarrow> settle loads (on_error (i, wrap))))"
  by pat_completeness auto
termination
proof (relation "measure (\<lambda>(loads, st). pending (fst st))")
  show "wf (measure (\<lambda>(loads, st). pending (fst st)))" by simp
next
  fix loads :: "jsstring \<Rightarrow> bool" and i :: img and wrap :: "wrapper option"
    and s :: jsstring and rest :: "jsstring list"
  assume "avatarErrorHandler i = Some rest"
  from on_error_pending [OF this]
  show "((loads, on_error (i, wrap)), (loads, (i, wrap)))
          \<in> measure (\<lambda>(loads, st). pending (fst st))"
    by simp
qed

function probes :: "(jsstring \<Rightarrow> bool) \<Rightarrow> img \<times> wrapper option \<Rightarrow> jsstring list" where
  "probes loads (i, wrap) =
     (case img_src i of
        None \<Rightarrow> []
      | Some s \<Rightarrow>
          if loads s then [s]
          else
            (case avatarErrorHandler i of
               None \<Rightarrow> [s]
             | Some rest \<Rightarrow> s # probes loads (on_error (i, wrap))))"
  by pat_completeness auto
termination
proof (relation "measure (\<lambda>(loads, st). pending (fst st))")
  show "wf (measure (\<lambda>(loads, st). pending (fst st)))" by simp
next
  fix loads :: "jsstring \<Rightarrow> bool" and i :: img and wrap :: "wrapper option"
    and s :: jsstring and rest :: "jsstring list"
  assume "avatarErrorHandler i = Some rest"
  from on_error_pending [OF this]
  show "((loads, on_error (i, wrap)), (loads, (i, wrap)))
          \<in> measure (\<lambda>(loads, st). pending (fst st))"
    by simp
qed

section \<open>Reference definitions\<close>

text \<open>
  The sentences of the specification about the token file, written down as they read:
  an element of the array contributes when it is an object with truthy \<open>token\<close> and
  \<open>name\<close> fields, and then contributes the pair of their \<open>String\<close> conversions; a key of
  the mapping contributes its trimmed value when that value is a string that is not
  empty after trimming. \<open>own_props\<close> is the object that assigning the pairs in order
  leaves, and \<open>registered\<close> the name the normalized file holds for a token.
\<close>

definition contributes :: "json \<Rightarrow> bool" where
  "contributes entry \<longleftrightarrow>
     truthy (Some entry) \<and> typeof_object (Some entry)
     \<and> truthy (field entry (lit ''token'')) \<and> truthy (field entry (lit ''name''))"

definition entry_pair :: "json \<Rightarrow> js_error + (jsstring \<times> jsstring)" where
  "entry_pair entry =
     (case js_String (field entry (lit ''token'')) of
        Inl e \<Rightarrow> Inl e
      | Inr k \<Rightarrow>
          (case js_String (field entry (lit ''name'')) of
             Inl e \<Rightarrow> Inl e
           | Inr v \<Rightarrow> Inr (k, v)))"

definition spec_pairs :: "json list \<Rightarrow> js_error + (jsstring \<times> jsstring) list" where
  "spec_pairs entries = collect (map entry_pair (filter contributes entries))"

definition own_props :: "(jsstring \<times> jsstring) list \<Rightarrow> tokmap" where
  "own_props pairs = (\<lambda>k. if k = lit ''__proto__'' then None else map_of (rev pairs) k)"

definition spec_mapping :: "json \<Rightarrow> tokmap" where
  "spec_mapping source =
     (\<lambda>k. if k = lit ''__proto__'' then None
          else (case own_get source k of
                  Some (JStr v) \<Rightarrow> if trim v = [] then None else Some (trim v)
                | _ \<Rightarrow> None))"

definition registered :: "json \<Rightarrow> jsstring \<Rightarrow> jsstring option" where
  "registered raw k = (case normalizeGuestTokens raw of Inl e \<Rightarrow> None | Inr m \<Rightarrow> m k)"

text \<open>
  The candidate files of the specification: the bases are the trimmed name, its URL
  encoding, the name with white space replaced by underscores and the folded name with
  underscores, without the empty ones and without a base that repeats an earlier one up
  to letter case; every base is tried with the extensions in order. \<open>attempts\<close> is the
  part of such a list that is requested when \<open>loads\<close> tells which files load.
\<close>

definition well_formed :: "jsstring \<Rightarrow> bool" where
  "well_formed s = list_all (\<lambda>c. \<not> is_surrogate c) s"

definition encode_all :: "jsstring \<Rightarrow> jsstring" where
  "encode_all s =
     concat (map (\<lambda>c. if unreserved c then [c] else concat (map escape_octet (utf8_encode c))) s)"

fun dedup_ci :: "engine \<Rightarrow> jsstring list \<Rightarrow> jsstring list" where
  "dedup_ci E [] = []"
| "dedup_ci E (b # bs) =
     b # filter (\<lambda>x. toLowerCase E x \<noteq> toLowerCase E b) (dedup_ci E bs)"

definition candidate_bases :: "engine \<Rightarrow> jsstring \<Rightarrow> jsstring list" where
  "candidate_bases E playerName =
     (if playerName = [] then []
      else dedup_ci E (filter (\<lambda>b. b \<noteq> [])
             [trim playerName,
              encode_all (trim playerName),
              replace_spaces (trim playerName),
              replace_spaces (normalizeName E (Name (trim playerName)))]))"

definition candidate_files :: "engine \<Rightarrow> jsstring \<Rightarrow> jsstring list" where
  "candidate_files E playerName =
     [lit ''./avatars/'' @ base @ 0x2E # ext.
        base \<leftarrow> candidate_bases E playerName,
        ext \<leftarrow> [lit ''png'', lit ''jpg'', lit ''jpeg'', lit ''webp'']]"

fun attempts :: "(jsstring \<Rightarrow> bool) \<Rightarrow> jsstring list \<Rightarrow> jsstring list" where
  "attempts loads [] = []"
| "attempts loads (f # fs) = f # (if loads f then [] else attempts loads fs)"

text \<open>The sections \<open>handleError\<close> writes to, each with its message.\<close>

definition error_sections :: "(string \<times> 'x item) list" where
  "error_sections =
     [(''#leaderboard-list'',
       Message ''li'' ''leaderboard-item error''
         (lit (''We could not load the leaderboard right now. ''
               @ ''Refresh to try again or contact Lorenzo.''))),
      (''#recent-plays'', Message ''li'' ''timeline-item'' (lit ''Could not load plays.'')),
      (''#events-timeline'', Message ''li'' ''timeline-item'' (lit ''Could not load point log.'')),
      (''#all-events-list'', Message ''li'' ''timeline-item'' (lit ''Could not load point log.'')),
      (''#all-plays-list'', Message ''li'' ''timeline-item'' (lit ''Could not load plays.'')),
      (''#player-activity'', Message ''p'' ''timeline-notes'' (lit ''Player activity unavailable.''))]"

text \<open>
  The combining diacritical marks of the sentence about name matching: the Unicode block
  U+0300 to U+036F.
\<close>

definition combining :: "nat \<Rightarrow> bool" where
  "combining c \<longleftrightarrow> 0x300 \<le> c \<and> c \<le> 0x36F"

text \<open>
  Two names that differ only in letter case and in combining marks. \<open>letter_of\<close> gives
  the letter a character stands for, with its case and its accent put aside; marks may
  stand anywhere in either name, and the other characters correspond one to one.
\<close>

inductive same_letters :: "(nat \<Rightarrow> nat) \<Rightarrow> jsstring \<Rightarrow> jsstring \<Rightarrow> bool"
  for letter_of :: "nat \<Rightarrow> nat" where
    both_end: "same_letters letter_of [] []"
  | mark_left: "combining c \<Longrightarrow> same_letters letter_of a b \<Longrightarrow> same_letters letter_of (c # a) b"
  | mark_right: "combining c \<Longrightarrow> same_letters letter_of a b \<Longrightarrow> same_letters letter_of a (c # b)"
  | same_letter:
      "\<not> combining x \<Longrightarrow> \<not> combining y \<Longrightarrow> letter_of x = letter_of y
       \<Longrightarrow> same_letters letter_of a b \<Longrightarrow> same_letters letter_of (x # a) (y # b)"

code_pred same_letters .

text \<open>
  An alphabet that the engine treats letter by letter. Combining marks aside, the
  decomposition of a string over the alphabet and the marks consists of the base letters
  of its characters in their order (\<open>base\<close> takes a precomposed accent off), and the
  lower-casing of a string of base letters is the lower-casing of each letter. The Latin
  letters with their accented forms are such an alphabet; the Greek letters are not,
  because the lower-casing of capital sigma depends on its place in the word.
\<close>

definition letterwise :: "engine \<Rightarrow> (nat \<Rightarrow> bool) \<Rightarrow> (nat \<Rightarrow> nat) \<Rightarrow> (nat \<Rightarrow> nat) \<Rightarrow> bool" where
  "letterwise E alphabet base lower \<longleftrightarrow>
     (\<forall>s. list_all (\<lambda>c. alphabet c \<or> combining c) s \<longrightarrow>
        filter (\<lambda>c. \<not> combining c) (nfkd E s) = map base (filter (\<lambda>c. \<not> combining c) s))
     \<and> (\<forall>s. list_all alphabet s \<longrightarrow> toLowerCase E (map base s) = map lower (map base s))"



section \<open>A sample engine and sample data\<close>

text \<open>
  The closed examples below need an engine. \<open>sample_engine\<close> does on their strings what
  ECMAScript and the Unicode Character Database prescribe. It decomposes U+00E9 and
  U+00C9 into the letter and U+0301, and the four marks of U+0300 to U+036F that have a
  decomposition into theirs. It puts marks into canonical order with the combining
  classes of the database: those of U+0300 to U+036F (0 for U+034F, not 0 for the
  others), 7 for U+093C, 9 for U+094D, 230 for U+1DC4, and 0 for the other code points
  of the examples. It lower-cases ASCII letters, and it prints integers in decimal
  digits. The general theorems have the engine as a parameter.
\<close>

definition ascii_lower :: "nat \<Rightarrow> nat" where
  "ascii_lower c = (if 0x41 \<le> c \<and> c \<le> 0x5A then c + 0x20 else c)"

definition sample_decomposition :: "nat \<Rightarrow> nat list" where
  "sample_decomposition c =
     (if c = 0xE9 then [0x65, 0x301] else if c = 0xC9 then [0x45, 0x301]
      else if c = 0x340 then [0x300] else if c = 0x341 then [0x301]
      else if c = 0x343 then [0x313] else if c = 0x344 then [0x308, 0x301]
      else [c])"

definition sample_ccc :: "nat \<Rightarrow> nat" where
  "sample_ccc c =
     (if c = 0x93C then 7 else if c = 0x94D then 9 else if c = 0x1DC4 then 230
      else if c < 0x300 \<or> 0x36F < c \<or> c = 0x34F then 0
      else if c = 0x315 \<or> c = 0x31A \<or> c = 0x358 then 232
      else if c = 0x31B then 216
      else if c = 0x321 \<or> c = 0x322 \<or> c = 0x327 \<or> c = 0x328 then 202
      else if 0x334 \<le> c \<and> c \<le> 0x338 then 1
      else if c = 0x345 then 240
      else if c = 0x35C \<or> c = 0x35F \<or> c = 0x362 then 233
      else if c = 0x35D \<or> c = 0x35E \<or> c = 0x360 \<or> c = 0x361 then 234
      else if (0x316 \<le> c \<and> c \<le> 0x319) \<or> (0x31C \<le> c \<and> c \<le> 0x320)
              \<or> (0x323 \<le> c \<and> c \<le> 0x326) \<or> (0x329 \<le> c \<and> c \<le> 0x333)
              \<or> (0x339 \<le> c \<and> c \<le> 0x33C) \<or> (0x347 \<le> c \<and> c \<le> 0x349)
              \<or> c = 0x34D \<or> c = 0x34E \<or> (0x353 \<le> c \<and> c \<le> 0x356)
              \<or> c = 0x359 \<or> c = 0x35A then 220
      else 230)"

fun place :: "nat \<Rightarrow> nat list \<Rightarrow> nat list" where
  "place c [] = [c]"
| "place c (p # ps) =
     (if sample_ccc c \<noteq> 0 \<and> sample_ccc c < sample_ccc p then p # place c ps
      else c # p # ps)"

definition canonical_order :: "nat list \<Rightarrow> nat list" where
  "canonical_order s = rev (fold place s [])"

definition int_text :: "int \<Rightarrow> jsstring" where
  "int_text n = (if n < 0 then 0x2D # dec (nat (- n)) else dec (nat n))"

definition sample_engine :: engine where
  "sample_engine =
     \<lparr>nfkd = (\<lambda>s. canonical_order (concat (map sample_decomposition s))),
      toLowerCase = map ascii_lower,
      builtinText = (\<lambda>k. if k = lit ''__proto__'' then lit ''[object Object]''
                          else if k = lit ''constructor''
                          then lit ''function Object() { [native code] }''
                          else lit ''function '' @ k @ lit ''() { [native code] }''),
      localeDate = (\<lambda>s. None),
      numberText = int_text\<rparr>"

text \<open>
  The alphabet of the examples of name matching: the ASCII characters and the two
  accented letters, each with the letter it decomposes to.
\<close>

definition sample_alphabet :: "nat \<Rightarrow> bool" where
  "sample_alphabet c \<longleftrightarrow> c < 0x80 \<or> c = 0xC9 \<or> c = 0xE9"

definition sample_base :: "nat \<Rightarrow> nat" where
  "sample_base c = hd (sample_decomposition c)"

text \<open>
  \<open>greek_engine\<close> differs from \<open>sample_engine\<close> in \<open>toLowerCase\<close> alone, which also
  lower-cases capital sigma, as the condition \<open>Final_Sigma\<close> of Unicode prescribes: to
  final sigma U+03C2 when a cased letter stands before it and none after it,
  case-ignorable characters aside, and to small sigma U+03C3 otherwise.
\<close>

definition cased :: "nat \<Rightarrow> bool" where
  "cased c \<longleftrightarrow>
     (0x41 \<le> c \<and> c \<le> 0x5A) \<or> (0x61 \<le> c \<and> c \<le> 0x7A) \<or> c = 0x3A3 \<or> c = 0x3C2 \<or> c = 0x3C3"

definition case_ignorable :: "nat \<Rightarrow> bool" where
  "case_ignorable c \<longleftrightarrow>
     c = 0x27 \<or> c = 0x2E \<or> c = 0x3A \<or> c = 0x5E \<or> c = 0x60 \<or> (0x300 \<le> c \<and> c \<le> 0x36F)
     \<or> c = 0x93C \<or> c = 0x94D \<or> c = 0x1DC4"

definition cased_follows :: "jsstring \<Rightarrow> bool" where
  "cased_follows cs = (case dropWhile case_ignorable cs of [] \<Rightarrow> False | d # _ \<Rightarrow> cased d)"

fun final_sigma_lower :: "bool \<Rightarrow> jsstring \<Rightarrow> jsstring" where
  "final_sigma_lower after_cased [] = []"
| "final_sigma_lower after_cased (c # cs) =
     (if c = 0x3A3 then (if after_cased \<and> \<not> cased_follows cs then 0x3C2 else 0x3C3)
      else ascii_lower c)
     # final_sigma_lower (if case_ignorable c then after_cased else cased c) cs"

definition greek_engine :: engine where
  "greek_engine = sample_engine\<lparr>toLowerCase := final_sigma_lower False\<rparr>"


text \<open>The token file of the specification's example, and a page with sample data.\<close>

definition example_tokens :: json where
  "example_tokens = JObj [(lit ''Q7xG8O'', JStr (lit ''Sasha''))]"

definition example_page :: "unit item page" where
  "example_page =
     \<lparr>greeting = Some \<lparr>hidden = True, textContent = []\<rparr>,
      containers =
        [''#leaderboard-list'' \<mapsto> [], ''#scoring-rules'' \<mapsto> [],
         ''#recent-plays'' \<mapsto> [], ''#events-timeline'' \<mapsto> [],
         ''#player-activity'' \<mapsto> []],
      templates = [''#player-template'', ''#event-template'', ''#timeline-award-template'',
                   ''#play-template'', ''#activity-card-template'', ''#scoring-rule-template''],
      template_expand =
        Some \<lparr>button_hidden = True, button_text = [], button_expanded = None\<rparr>\<rparr>"

definition example_img :: img where
  "example_img = \<lparr>img_hidden = False, img_src = None, img_alt = [], avatarErrorHandler = None\<rparr>"

definition example_activity :: "activity_entry list" where
  "example_activity =
     [\<lparr>entry_player = lit ''Jess'', totalPlays = 0, games = None, entry_podiums = None\<rparr>,
      \<lparr>entry_player = lit ''Sam'', totalPlays = 2,
        games = Some [\<lparr>gc_game = lit ''Heat'', gc_count = 2\<rparr>], entry_podiums = None\<rparr>,
      \<lparr>entry_player = lit ''Lorenzo'', totalPlays = 0,
        games = Some [\<lparr>gc_game = lit ''Azul'', gc_count = 1\<rparr>], entry_podiums = None\<rparr>,
      \<lparr>entry_player = lit ''Andrea'', totalPlays = 0, games = Some [], entry_podiums = None\<rparr>]"

definition example_events :: "event list" where
  "example_events =
     [\<lparr>event_name = lit ''Game Night 3'', event_date = None, event_awards = None\<rparr>,
      \<lparr>event_name = lit ''Game Night 2'', event_date = None, event_awards = None\<rparr>,
      \<lparr>event_name = lit ''Game Night 1'', event_date = None, event_awards = None\<rparr>]"

lemmas eval_defs =
  lit_def params_get_def nullish_def replace_plus_def trim_def is_space_def hex_digit_def
  leading_ones_def is_cont_def prepend_def getGuestTokenFromUrl_def first_present_def
  priority_def set_prop_def add_key_def token_source_def lookup_token_def
  Object_prototype_names_def renderGreeting_def example_tokens_def example_page_def
  sample_engine_def ascii_lower_def sample_decomposition_def sample_ccc_def
  canonical_order_def is_mark_def strip_marks_def normalizeName_def highlights_def

section \<open>Properties of the guest token\<close>

lemma first_present_nullish:
  "first_present ps =
     nullish (params_get ps (lit ''guest''))
       (nullish (params_get ps (lit ''token''))
         (nullish (params_get ps (lit ''code''))
           (params_get ps (lit ''ticket''))))"
  by (auto simp: first_present_def priority_def nullish_def split: option.splits)

lemma decode_empty: "decodeURIComponent (replace_plus []) = Inr []"
  by (simp add: replace_plus_def)

lemma trim_empty: "trim [] = []"
  by (simp add: trim_def)

text \<open>
  A value without a percent sign decodes to itself, so for such a value the result is
  the value with its plus signs turned into spaces and its ends trimmed, or no token
  when nothing is left.
\<close>

lemma decode_plain: "0x25 \<notin> set s \<Longrightarrow> decodeURIComponent s = Inr s"
  by (induction s) (simp_all add: prepend_def)

lemma guest_token_of_plain_value:
  assumes "first_present ps = Some v" and "0x25 \<notin> set v"
  shows "getGuestTokenFromUrl ps =
     Inr (if trim (map (\<lambda>c. if c = 0x2B then 0x20 else c) v) = [] then None
          else Some (trim (map (\<lambda>c. if c = 0x2B then 0x20 else c) v)))"
proof -
  have "0x25 \<notin> set (replace_plus v)"
    using assms(2) by (auto simp: replace_plus_def)
  then have "decodeURIComponent (replace_plus v) = Inr (replace_plus v)"
    by (rule decode_plain)
  with assms(1) show ?thesis
    by (auto simp: getGuestTokenFromUrl_def first_present_nullish [symmetric] Let_def
        replace_plus_def trim_empty)
qed

text \<open>
  C2 fails on a value that is not a sequence of well-formed escapes. For the query
  \<open>?guest=100%25\<close> the parameter \<open>guest\<close> has the value \<open>100%\<close>, and so has it for
  \<open>?ticket=100%25\<close>: \<open>decodeURIComponent\<close> throws \<open>URIError\<close> on it, nothing catches the
  exception, and \<open>getGuestTokenFromUrl\<close> returns neither a token nor \<open>null\<close>.
\<close>

theorem malformed_escape_throws:
  "getGuestTokenFromUrl [(lit ''guest'', lit ''100%'')] = Inl URIError
   \<and> getGuestTokenFromUrl [(lit ''ticket'', lit ''100%'')] = Inl URIError"
  by (simp add: eval_defs)

text \<open>
  C9. Presence decides which parameter wins: when the value of the first parameter
  present in the order guest, token, code, ticket is empty, or decodes to white space
  only, the result is no token, whatever the parameters after it carry.
\<close>

theorem empty_winner_no_fallback:
  assumes "first_present ps = Some v"
    and "decodeURIComponent (replace_plus v) = Inr d"
    and "trim d = []"
  shows "getGuestTokenFromUrl ps = Inr None"
  using assms
  by (simp add: getGuestTokenFromUrl_def first_present_nullish [symmetric] Let_def)

text \<open>
  The query \<open>?token=abc&guest=%20+\<close>: \<open>guest\<close> wins with a value that trims to nothing,
  and the token \<open>abc\<close> is not used.
\<close>

theorem empty_winner_no_fallback_witness:
  "first_present [(lit ''token'', lit ''abc''), (lit ''guest'', lit ''%20+'')] = Some (lit ''%20+'')
   \<and> decodeURIComponent (replace_plus (lit ''%20+'')) = Inr (lit ''  '')
   \<and> trim (lit ''  '') = []
   \<and> params_get [(lit ''token'', lit ''abc''), (lit ''guest'', lit ''%20+'')] (lit ''token'')
       = Some (lit ''abc'')
   \<and> getGuestTokenFromUrl [(lit ''token'', lit ''abc''), (lit ''guest'', lit ''%20+'')] = Inr None"
proof -
  have a: "first_present [(lit ''token'', lit ''abc''), (lit ''guest'', lit ''%20+'')]
      = Some (lit ''%20+'')"
    by (simp add: eval_defs)
  have b: "decodeURIComponent (replace_plus (lit ''%20+'')) = Inr (lit ''  '')"
    by (simp add: eval_defs)
  have c: "trim (lit ''  '') = []"
    by (simp add: eval_defs)
  have d: "params_get [(lit ''token'', lit ''abc''), (lit ''guest'', lit ''%20+'')] (lit ''token'')
      = Some (lit ''abc'')"
    by (simp add: eval_defs)
  from a b c d empty_winner_no_fallback [OF a b c] show ?thesis by blast
qed

section \<open>Properties of the greeting\<close>

text \<open>
  A token that is an own key of the map with a name that is not empty is greeted; a
  token that is neither a key nor a name of \<open>Object.prototype\<close>, and an absent token,
  hide the greeting.
\<close>

lemma renderGreeting_registered:
  assumes "greeting pg = Some el"
    and "getGuestTokenFromUrl ps = Inr (Some token)"
    and "tokens token = Some name"
    and "name \<noteq> []"
  shows "renderGreeting E tokens ps pg =
     Inr (pg\<lparr>greeting := Some (el\<lparr>hidden := False,
            textContent := lit ''Welcome to the party, '' @ name @ lit ''!''\<rparr>)\<rparr>, Name name)"
  using assms by (simp add: renderGreeting_def lookup_token_def)

lemma renderGreeting_unregistered:
  assumes "greeting pg = Some el"
    and "getGuestTokenFromUrl ps = Inr (Some token)"
    and "tokens token = None"
    and "token \<notin> set Object_prototype_names"
  shows "renderGreeting E tokens ps pg =
     Inr (pg\<lparr>greeting := Some (el\<lparr>hidden := True, textContent := []\<rparr>)\<rparr>, NoName)"
  using assms by (simp add: renderGreeting_def lookup_token_def)

lemma renderGreeting_absent:
  assumes "greeting pg = Some el"
    and "getGuestTokenFromUrl ps = Inr None"
  shows "renderGreeting E tokens ps pg =
     Inr (pg\<lparr>greeting := Some (el\<lparr>hidden := True, textContent := []\<rparr>)\<rparr>, NoName)"
  using assms by (simp add: renderGreeting_def)

lemma loadGuestTokens_example:
  "loadGuestTokens (Inr example_tokens) = [lit ''Q7xG8O'' \<mapsto> lit ''Sasha'']"
  by (simp add: loadGuestTokens_def eval_defs)

text \<open>The example of the specification: \<open>?guest=Q7xG8O\<close> and \<open>?guest=bogus\<close>.\<close>

lemma greeting_example:
  "renderGreeting E (loadGuestTokens (Inr example_tokens))
       [(lit ''guest'', lit ''Q7xG8O'')] example_page
     = Inr (example_page\<lparr>greeting := Some \<lparr>hidden = False,
              textContent = lit ''Welcome to the party, Sasha!''\<rparr>\<rparr>, Name (lit ''Sasha''))
   \<and> renderGreeting E (loadGuestTokens (Inr example_tokens))
       [(lit ''guest'', lit ''bogus'')] example_page
     = Inr (example_page\<lparr>greeting := Some \<lparr>hidden = True, textContent = []\<rparr>\<rparr>, NoName)"
  unfolding loadGuestTokens_example by (simp add: eval_defs)

text \<open>
  C1. The claim is that a token outside the registry hides the greeting and returns
  \<open>null\<close> without an error. With the token file of the example, the code does not:
  \<open>?guest=constructor\<close> finds the member \<open>constructor\<close> that the map inherits from
  \<open>Object.prototype\<close>, shows the greeting with the text of that function and returns
  it; and \<open>?guest=%\<close> makes \<open>decodeURIComponent\<close> throw \<open>URIError\<close> out of
  \<open>renderGreeting\<close>.
\<close>

theorem greeting_for_unregistered_tokens:
  "renderGreeting E (loadGuestTokens (Inr example_tokens))
       [(lit ''guest'', lit ''constructor'')] example_page
     = Inr (example_page\<lparr>greeting := Some \<lparr>hidden = False,
              textContent = lit ''Welcome to the party, ''
                @ builtinText E (lit ''constructor'') @ lit ''!''\<rparr>\<rparr>,
            Builtin (lit ''constructor''))
   \<and> renderGreeting E (loadGuestTokens (Inr example_tokens))
       [(lit ''guest'', lit ''%'')] example_page
     = Inl URIError"
  unfolding loadGuestTokens_example by (simp add: eval_defs)

section \<open>Properties of the token file\<close>

lemma fold_set_prop:
  "fold (\<lambda>(k, v) m. set_prop m k v) pairs m =
     (\<lambda>k. if k = lit ''__proto__'' then m k
          else (case map_of (rev pairs) k of None \<Rightarrow> m k | Some v \<Rightarrow> Some v))"
proof (induction pairs arbitrary: m)
  case Nil
  show ?case by (rule ext) simp
next
  case (Cons p pairs)
  obtain k v where p: "p = (k, v)" by (cases p)
  show ?case
    by (rule ext) (simp add: p Cons.IH, simp add: set_prop_def map_add_def split: option.splits)
qed

lemma reduce_entries_pairs:
  "reduce_entries entries m =
     (case spec_pairs entries of
        Inl e \<Rightarrow> Inl e
      | Inr pairs \<Rightarrow> Inr (fold (\<lambda>(k, v) m. set_prop m k v) pairs m))"
proof (induction entries arbitrary: m)
  case Nil
  then show ?case by (simp add: spec_pairs_def)
next
  case (Cons entry entries)
  show ?case
  proof (cases "contributes entry")
    case False
    then have "add_entry m entry = Inr m"
      by (auto simp: add_entry_def contributes_def Let_def)
    with False Cons.IH show ?thesis by (simp add: spec_pairs_def)
  next
    case True
    then have step: "add_entry m entry =
        (case entry_pair entry of Inl e \<Rightarrow> Inl e | Inr (k, v) \<Rightarrow> Inr (set_prop m k v))"
      by (auto simp: add_entry_def contributes_def entry_pair_def Let_def split: sum.splits)
    show ?thesis
    proof (cases "entry_pair entry")
      case (Inl e)
      with True step show ?thesis by (simp add: spec_pairs_def)
    next
      case (Inr kv)
      obtain k v where kv: "kv = (k, v)" by (cases kv)
      from True step Inr kv Cons.IH [of "set_prop m k v"] show ?thesis
        by (simp add: spec_pairs_def split: sum.splits)
    qed
  qed
qed

lemma normalize_array:
  "normalizeGuestTokens (JArr entries) =
     (case spec_pairs entries of Inl e \<Rightarrow> Inl e | Inr pairs \<Rightarrow> Inr (own_props pairs))"
proof -
  have "fold (\<lambda>(k, v) m. set_prop m k v) pairs Map.empty = own_props pairs" for pairs
    by (rule ext) (simp add: fold_set_prop own_props_def split: option.splits)
  then show ?thesis
    by (simp add: reduce_entries_pairs split: sum.splits)
qed

lemma add_key_spec:
  "add_key source m key =
     (case spec_mapping source key of None \<Rightarrow> m | Some v \<Rightarrow> m(key \<mapsto> v))"
proof (cases "own_get source key")
  case None
  then show ?thesis by (simp add: add_key_def spec_mapping_def)
next
  case (Some val)
  then show ?thesis
    by (cases val) (simp_all add: add_key_def spec_mapping_def set_prop_def)
qed

lemma reduce_keys_closed:
  "reduce_keys source keys m =
     (\<lambda>k. if k \<in> set keys \<and> spec_mapping source k \<noteq> None then spec_mapping source k else m k)"
proof (induction keys arbitrary: m)
  case Nil
  show ?case by (rule ext) simp
next
  case (Cons key keys)
  show ?case
  proof (rule ext)
    fix k
    show "reduce_keys source (key # keys) m k =
        (if k \<in> set (key # keys) \<and> spec_mapping source k \<noteq> None
         then spec_mapping source k else m k)"
      by (cases "spec_mapping source key") (auto simp: Cons.IH add_key_spec)
  qed
qed

lemma own_get_keys_obj: "map_of kvs k \<noteq> None \<Longrightarrow> k \<in> set (own_keys (JObj kvs))"
  by (simp add: map_of_eq_None_iff)

lemma own_get_keys_arr:
  assumes "map_of (zip (map dec [0..<length xs]) xs) k \<noteq> None"
  shows "k \<in> set (own_keys (JArr xs))"
proof -
  from assms have "k \<in> fst ` set (zip (map dec [0..<length xs]) xs)"
    by (simp only: map_of_eq_None_iff not_not)
  then have "k \<in> set (map dec [0..<length xs])"
    by (auto dest: set_zip_leftD)
  then show ?thesis by simp
qed

lemma own_get_keys: "own_get source k \<noteq> None \<Longrightarrow> k \<in> set (own_keys source)"
proof (cases source)
  case (JObj kvs)
  assume "own_get source k \<noteq> None"
  with JObj show ?thesis using own_get_keys_obj [of kvs k] by simp
next
  case (JArr xs)
  assume "own_get source k \<noteq> None"
  with JArr show ?thesis using own_get_keys_arr [of xs k] by simp
qed simp_all

lemma normalize_mapping:
  "normalizeGuestTokens (JObj kvs) = Inr (spec_mapping (token_source (JObj kvs)))"
proof -
  have "reduce_keys source (own_keys source) Map.empty = spec_mapping source" for source
  proof (rule ext)
    fix k
    show "reduce_keys source (own_keys source) Map.empty k = spec_mapping source k"
    proof (cases "spec_mapping source k")
      case None
      then show ?thesis by (simp add: reduce_keys_closed)
    next
      case (Some v)
      then have "own_get source k \<noteq> None"
        by (auto simp: spec_mapping_def split: if_splits option.splits)
      from own_get_keys [OF this] Some show ?thesis by (simp add: reduce_keys_closed)
    qed
  qed
  then show ?thesis by simp
qed

text \<open>
  C4 as stated fails on the key \<open>__proto__\<close>: its value \<open>Sasha\<close> is a string that is not
  empty after trimming, and neither shape of the file registers it. It fails as well on
  an element whose token is an object with an own \<open>toString\<close> member: the element is an
  object with truthy \<open>token\<close> and \<open>name\<close>, and \<open>String(token)\<close> throws.
\<close>

theorem proto_key_is_dropped:
  "trim (lit ''Sasha'') = lit ''Sasha''
   \<and> registered (JObj [(lit ''__proto__'', JStr (lit ''Sasha''))]) (lit ''__proto__'') = None
   \<and> registered (JArr [JObj [(lit ''token'', JStr (lit ''__proto__'')),
                              (lit ''name'', JStr (lit ''Sasha''))]]) (lit ''__proto__'') = None
   \<and> contributes (JObj [(lit ''token'', JObj [(lit ''toString'', JNull)]),
                         (lit ''name'', JStr (lit ''Sasha''))])
   \<and> normalizeGuestTokens (JArr [JObj [(lit ''token'', JObj [(lit ''toString'', JNull)]),
                                       (lit ''name'', JStr (lit ''Sasha''))]]) = Inl TypeError"
  by (simp add: registered_def eval_defs add_entry_def contributes_def)

text \<open>
  C4, amended. \<open>normalizeGuestTokens\<close> accepts both shapes and gives the same kind of
  map. For an array, the elements that are objects with truthy \<open>token\<close> and \<open>name\<close> fields
  contribute \<open>String(token)\<close> to \<open>String(name)\<close>, a later element replacing an earlier one
  with the same token, and a \<open>String\<close> conversion that throws makes the function throw.
  For a mapping, read from its \<open>tokens\<close> member when that is an object, every key whose
  value is a string that is not empty after trimming contributes the trimmed value.
  In both shapes the key \<open>__proto__\<close> is never registered. Any other input gives the
  empty map.
\<close>

theorem normalizeGuestTokens_shapes:
  "normalizeGuestTokens (JArr entries) =
     (case spec_pairs entries of Inl e \<Rightarrow> Inl e | Inr pairs \<Rightarrow> Inr (own_props pairs))
   \<and> normalizeGuestTokens (JObj kvs) = Inr (spec_mapping (token_source (JObj kvs)))
   \<and> normalizeGuestTokens JNull = Inr Map.empty
   \<and> normalizeGuestTokens (JBool b) = Inr Map.empty
   \<and> normalizeGuestTokens (JNum t) = Inr Map.empty
   \<and> normalizeGuestTokens (JStr s) = Inr Map.empty"
  using normalize_array [of entries] normalize_mapping [of kvs] by simp

text \<open>The two shapes of the example file register the same name.\<close>

theorem normalizeGuestTokens_shapes_witness:
  "registered (JObj [(lit ''Q7xG8O'', JStr (lit '' Sasha ''))]) (lit ''Q7xG8O'')
     = Some (lit ''Sasha'')
   \<and> registered (JObj [(lit ''tokens'', JObj [(lit ''Q7xG8O'', JStr (lit ''Sasha''))])])
       (lit ''Q7xG8O'') = Some (lit ''Sasha'')
   \<and> registered (JArr [JObj [(lit ''token'', JStr (lit ''Q7xG8O'')),
                              (lit ''name'', JStr (lit ''Sasha''))]]) (lit ''Q7xG8O'')
     = Some (lit ''Sasha'')
   \<and> registered (JStr (lit ''Q7xG8O'')) (lit ''Q7xG8O'') = None"
proof -
  note obj = normalizeGuestTokens_shapes [of "[]" "[(lit ''Q7xG8O'', JStr (lit '' Sasha ''))]",
      THEN conjunct2, THEN conjunct1]
  note nested = normalizeGuestTokens_shapes [of "[]"
      "[(lit ''tokens'', JObj [(lit ''Q7xG8O'', JStr (lit ''Sasha''))])]",
      THEN conjunct2, THEN conjunct1]
  note arr = normalizeGuestTokens_shapes [of
      "[JObj [(lit ''token'', JStr (lit ''Q7xG8O'')), (lit ''name'', JStr (lit ''Sasha''))]]"
      "[]", THEN conjunct1]
  note str = normalizeGuestTokens_shapes [of "[]" "[]" _ _ "lit ''Q7xG8O''",
      THEN conjunct2, THEN conjunct2, THEN conjunct2, THEN conjunct2, THEN conjunct2]
  have 1: "registered (JObj [(lit ''Q7xG8O'', JStr (lit '' Sasha ''))]) (lit ''Q7xG8O'')
      = Some (lit ''Sasha'')"
    unfolding registered_def obj
    by (simp add: spec_mapping_def token_source_def lit_def trim_def is_space_def)
  have 2: "registered (JObj [(lit ''tokens'', JObj [(lit ''Q7xG8O'', JStr (lit ''Sasha''))])])
       (lit ''Q7xG8O'') = Some (lit ''Sasha'')"
    unfolding registered_def nested
    by (simp add: spec_mapping_def token_source_def lit_def trim_def is_space_def)
  have 3: "registered (JArr [JObj [(lit ''token'', JStr (lit ''Q7xG8O'')),
                              (lit ''name'', JStr (lit ''Sasha''))]]) (lit ''Q7xG8O'')
      = Some (lit ''Sasha'')"
    unfolding registered_def arr
    by (simp add: spec_pairs_def contributes_def entry_pair_def own_props_def lit_def)
  have 4: "registered (JStr (lit ''Q7xG8O'')) (lit ''Q7xG8O'') = None"
    unfolding registered_def str by simp
  from 1 2 3 4 show ?thesis by simp
qed

section \<open>Properties of name matching\<close>



lemma set_trim: "set (trim s) \<subseteq> set s"
proof -
  have "set (dropWhile is_space (rev (dropWhile is_space s))) \<subseteq> set (rev (dropWhile is_space s))"
    by (rule set_dropWhileD [THEN subsetI])
  also have "\<dots> \<subseteq> set s"
    by (auto dest: set_dropWhileD)
  finally show ?thesis by (simp add: trim_def)
qed

text \<open>
  Marks anywhere in a decomposition do not count: a decomposition with further
  characters of U+0300 to U+036F put in at any place loses them again.
\<close>

lemma marks_are_ignored:
  "list_all is_mark ms \<Longrightarrow> strip_marks (xs @ ms @ ys) = strip_marks (xs @ ys)"
  by (simp add: strip_marks_def list_all_iff)

text \<open>
  Two names that differ only in letter case and in combining marks have the same letters
  once the marks are left out and case and accent are put aside; and on an alphabet that
  the engine treats letter by letter, \<open>normalizeName\<close> is these letters, trimmed.
\<close>

lemma same_letters_skeleton:
  "same_letters f a b \<Longrightarrow>
     map f (filter (\<lambda>c. \<not> combining c) a) = map f (filter (\<lambda>c. \<not> combining c) b)"
  by (induction rule: same_letters.induct) simp_all

lemma is_mark_combining: "is_mark = combining"
  by (rule ext) (simp add: is_mark_def combining_def)

lemma normalizeName_letterwise:
  assumes "letterwise E alphabet base lower"
    and "list_all (\<lambda>c. alphabet c \<or> combining c) s"
  shows "normalizeName E (Name s) = trim (map (\<lambda>c. lower (base c)) (filter (\<lambda>c. \<not> combining c) s))"
proof -
  have "list_all alphabet (filter (\<lambda>c. \<not> combining c) s)"
    using assms(2) by (auto simp: list_all_iff)
  with assms show ?thesis
    by (simp add: normalizeName_def strip_marks_def is_mark_combining letterwise_def comp_def)
qed

text \<open>
  The sample engine treats its alphabet letter by letter: putting the marks into
  canonical order moves marks only, and what is left of a decomposition without them is
  the base letter.
\<close>

lemma nfkd_sample:
  "nfkd sample_engine s = canonical_order (concat (map sample_decomposition s))"
  by (simp add: sample_engine_def)

lemma lower_sample: "toLowerCase sample_engine s = map ascii_lower s"
  by (simp add: sample_engine_def)

lemma place_filter:
  "(sample_ccc c \<noteq> 0 \<longrightarrow> combining c) \<Longrightarrow>
     filter (\<lambda>c. \<not> combining c) (rev (place c acc))
       = filter (\<lambda>c. \<not> combining c) (rev acc) @ filter (\<lambda>c. \<not> combining c) [c]"
  by (induction acc) auto

lemma fold_place_filter:
  "\<forall>c \<in> set xs. sample_ccc c \<noteq> 0 \<longrightarrow> combining c \<Longrightarrow>
     filter (\<lambda>c. \<not> combining c) (rev (fold place xs acc))
       = filter (\<lambda>c. \<not> combining c) (rev acc) @ filter (\<lambda>c. \<not> combining c) xs"
proof (induction xs arbitrary: acc)
  case Nil
  then show ?case by simp
next
  case (Cons a xs)
  then have "sample_ccc a \<noteq> 0 \<longrightarrow> combining a"
    and rest: "\<forall>c \<in> set xs. sample_ccc c \<noteq> 0 \<longrightarrow> combining c"
    by simp_all
  from place_filter [OF this(1)] Cons.IH [OF rest] show ?case by simp
qed

lemma sample_ccc_marks:
  "sample_alphabet c \<or> combining c \<Longrightarrow> d \<in> set (sample_decomposition c)
     \<Longrightarrow> sample_ccc d \<noteq> 0 \<longrightarrow> combining d"
  by (auto simp: sample_alphabet_def combining_def sample_decomposition_def sample_ccc_def
      split: if_splits)

lemma sample_decomposition_base:
  "filter (\<lambda>c. \<not> combining c) (sample_decomposition c) =
     (if combining c then [] else [sample_base c])"
  if "sample_alphabet c \<or> combining c"
  using that
  by (auto simp: sample_alphabet_def combining_def sample_decomposition_def sample_base_def)

lemma sample_decomposition_bases:
  "list_all (\<lambda>c. sample_alphabet c \<or> combining c) s \<Longrightarrow>
     filter (\<lambda>c. \<not> combining c) (concat (map sample_decomposition s))
       = map sample_base (filter (\<lambda>c. \<not> combining c) s)"
  by (induction s) (simp_all add: sample_decomposition_base)

lemma sample_base_ascii: "sample_alphabet c \<Longrightarrow> sample_base c < 0x80"
  by (auto simp: sample_alphabet_def sample_base_def sample_decomposition_def)

lemma sample_letterwise: "letterwise sample_engine sample_alphabet sample_base ascii_lower"
proof -
  have a: "filter (\<lambda>c. \<not> combining c) (nfkd sample_engine s)
      = map sample_base (filter (\<lambda>c. \<not> combining c) s)"
    if s: "list_all (\<lambda>c. sample_alphabet c \<or> combining c) s" for s
  proof -
    have "\<forall>d \<in> set (concat (map sample_decomposition s)). sample_ccc d \<noteq> 0 \<longrightarrow> combining d"
      using s sample_ccc_marks by (auto simp: list_all_iff)
    from fold_place_filter [OF this, of "[]"] sample_decomposition_bases [OF s]
    show ?thesis
      by (simp add: nfkd_sample canonical_order_def)
  qed
  show ?thesis
    unfolding letterwise_def using a by (simp add: lower_sample)
qed

text \<open>
  C3 as stated fails, for marks and for case. U+1DC4 is a combining mark outside U+0300
  to U+036F: the replacement keeps it, and \<open>a\<close> followed by U+1DC4 does not match \<open>a\<close>.
  Two capital sigmas become a small sigma and a final sigma, two small sigmas stay as
  they are: the two names differ in letter case only and do not match.
\<close>

theorem name_matching_counterexample:
  "normalizeName sample_engine (Name [0x61, 0x1DC4]) = [0x61, 0x1DC4]
   \<and> normalizeName sample_engine (Name [0x61]) = [0x61]
   \<and> \<not> highlights sample_engine (Name [0x61]) [0x61, 0x1DC4]
   \<and> normalizeName greek_engine (Name [0x3A3, 0x3A3]) = [0x3C3, 0x3C2]
   \<and> normalizeName greek_engine (Name [0x3C3, 0x3C3]) = [0x3C3, 0x3C3]
   \<and> \<not> highlights greek_engine (Name [0x3C3, 0x3C3]) [0x3A3, 0x3A3]"
  by (simp add: eval_defs greek_engine_def cased_follows_def cased_def case_ignorable_def)

text \<open>
  C3, amended. On an alphabet that the engine treats letter by letter, name matching
  ignores letter case, precomposed accents and the combining marks U+0300 to U+036F:
  two names over the alphabet and these marks that differ only in them (as \<open>Jos\<close>U+00E9
  and \<open>jose\<close> do) have the same \<open>normalizeName\<close>, and the test of the renderers succeeds
  on them whenever there is a highlight target at all.
\<close>

theorem names_match_on_letterwise_alphabet:
  assumes "letterwise E alphabet base lower"
    and "list_all (\<lambda>c. alphabet c \<or> combining c) dataName"
    and "list_all (\<lambda>c. alphabet c \<or> combining c) target"
    and "same_letters (\<lambda>c. lower (base c)) dataName target"
  shows "normalizeName E (Name dataName) = normalizeName E (Name target)
         \<and> (highlights E (Name target) dataName \<longleftrightarrow> target \<noteq> [])"
proof -
  have "map (\<lambda>c. lower (base c)) (filter (\<lambda>c. \<not> combining c) dataName)
      = map (\<lambda>c. lower (base c)) (filter (\<lambda>c. \<not> combining c) target)"
    using assms(4) by (rule same_letters_skeleton)
  then have "normalizeName E (Name dataName) = normalizeName E (Name target)"
    by (simp add: normalizeName_letterwise [OF assms(1,2)] normalizeName_letterwise [OF assms(1,3)])
  then show ?thesis
    by (simp add: highlights_def)
qed

text \<open>
  \<open>Jos\<close>U+00E9 in the data and the highlight target \<open>jose\<close>; and \<open>JOSE\<close> in capitals, with
  U+0323 after the \<open>O\<close> and U+0301 after the \<open>E\<close>.
\<close>

theorem names_match_on_letterwise_alphabet_witness:
  "letterwise sample_engine sample_alphabet sample_base ascii_lower
   \<and> list_all (\<lambda>c. sample_alphabet c \<or> combining c) [0x4A, 0x6F, 0x73, 0xE9]
   \<and> list_all (\<lambda>c. sample_alphabet c \<or> combining c) (lit ''jose'')
   \<and> same_letters (\<lambda>c. ascii_lower (sample_base c)) [0x4A, 0x6F, 0x73, 0xE9] (lit ''jose'')
   \<and> normalizeName sample_engine (Name [0x4A, 0x6F, 0x73, 0xE9]) = lit ''jose''
   \<and> normalizeName sample_engine (Name (lit ''jose'')) = lit ''jose''
   \<and> highlights sample_engine (Name (lit ''jose'')) [0x4A, 0x6F, 0x73, 0xE9]
   \<and> list_all (\<lambda>c. sample_alphabet c \<or> combining c) [0x4A, 0x4F, 0x323, 0x53, 0x45, 0x301]
   \<and> same_letters (\<lambda>c. ascii_lower (sample_base c))
        [0x4A, 0x4F, 0x323, 0x53, 0x45, 0x301] (lit ''jose'')
   \<and> highlights sample_engine (Name (lit ''jose'')) [0x4A, 0x4F, 0x323, 0x53, 0x45, 0x301]"
proof -
  let ?f = "\<lambda>c. ascii_lower (sample_base c)"
  have a: "list_all (\<lambda>c. sample_alphabet c \<or> combining c) [0x4A, 0x6F, 0x73, 0xE9]"
    by (simp add: sample_alphabet_def)
  have b: "list_all (\<lambda>c. sample_alphabet c \<or> combining c) (lit ''jose'')"
    by (simp add: sample_alphabet_def lit_def)
  have c: "list_all (\<lambda>c. sample_alphabet c \<or> combining c) [0x4A, 0x4F, 0x323, 0x53, 0x45, 0x301]"
    by (simp add: sample_alphabet_def combining_def)
  have f: "?f 0x4A = 0x6A" "?f 0x6F = 0x6F" "?f 0x73 = 0x73" "?f 0xE9 = 0x65" "?f 0x6A = 0x6A"
    "?f 0x65 = 0x65" "?f 0x4F = 0x6F" "?f 0x53 = 0x73" "?f 0x45 = 0x65"
    by (simp_all add: sample_base_def sample_decomposition_def ascii_lower_def)
  have n: "\<not> combining 0x4A" "\<not> combining 0x6F" "\<not> combining 0x73" "\<not> combining 0xE9"
    "\<not> combining 0x6A" "\<not> combining 0x65" "\<not> combining 0x4F" "\<not> combining 0x53"
    "\<not> combining 0x45" "combining 0x323" "combining 0x301"
    by (simp_all add: combining_def)
  have d: "same_letters ?f [0x4A, 0x6F, 0x73, 0xE9] (lit ''jose'')"
    unfolding lit_def by (simp add: f n same_letters.intros)
  have e: "same_letters ?f [0x4A, 0x4F, 0x323, 0x53, 0x45, 0x301] (lit ''jose'')"
    unfolding lit_def by (simp add: f n same_letters.intros)
  have v: "normalizeName sample_engine (Name (lit ''jose'')) = lit ''jose''"
    by (simp add: eval_defs)
  have t: "lit ''jose'' \<noteq> []"
    by (simp add: lit_def)
  from names_match_on_letterwise_alphabet [OF sample_letterwise a b d]
    names_match_on_letterwise_alphabet [OF sample_letterwise c b e]
    sample_letterwise a b c d e v t
  show ?thesis by simp
qed



































section \<open>Properties of the avatars\<close>

lemma encode_no_surrogate:
  "encodeURIComponent s =
     (if \<exists>c \<in> set s. is_surrogate c then Inl URIError else Inr (encode_all s))"
proof (induction s)
  case Nil
  then show ?case by (simp add: encode_all_def)
next
  case (Cons c s)
  have "is_surrogate c \<Longrightarrow> \<not> unreserved c"
    by (auto simp: is_surrogate_def unreserved_def)
  with Cons show ?case
    by (auto simp: encode_all_def prepend_def)
qed

lemma unique_bases_dedup:
  "unique_bases E bs seen =
     filter (\<lambda>x. toLowerCase E x \<notin> set seen) (dedup_ci E (filter (\<lambda>b. b \<noteq> []) bs))"
proof (induction bs arbitrary: seen)
  case Nil
  then show ?case by simp
next
  case (Cons b bs)
  show ?case
  proof (cases "b = []")
    case True
    with Cons show ?thesis by simp
  next
    case False
    show ?thesis
    proof (cases "toLowerCase E b \<in> set seen")
      case True
      have "filter (\<lambda>x. toLowerCase E x \<noteq> toLowerCase E b \<and> toLowerCase E x \<notin> set seen) xs
            = filter (\<lambda>x. toLowerCase E x \<notin> set seen) xs" for xs
        using True by (intro filter_cong) auto
      with True \<open>b \<noteq> []\<close> Cons show ?thesis by simp
    next
      case False
      from False \<open>b \<noteq> []\<close> Cons [of "toLowerCase E b # seen"] show ?thesis
        by (simp add: conj_commute)
    qed
  qed
qed

lemma getAvatarBases_candidates:
  assumes "well_formed playerName"
  shows "getAvatarBases E playerName = Inr (candidate_bases E playerName)"
proof -
  from assms have "\<forall>c \<in> set playerName. \<not> is_surrogate c"
    by (simp add: well_formed_def list_all_iff)
  with set_trim [of playerName] have "\<not> (\<exists>c \<in> set (trim playerName). is_surrogate c)"
    by blast
  then have "encodeURIComponent (trim playerName) = Inr (encode_all (trim playerName))"
    by (simp only: encode_no_surrogate if_False)
  then show ?thesis
    by (simp add: getAvatarBases_def candidate_bases_def unique_bases_dedup Let_def)
qed

lemma avatar_sources_files:
  "avatar_sources (candidate_bases E playerName) = candidate_files E playerName"
  by (simp add: avatar_sources_def candidate_files_def extensions_def)

lemma probes_attempts:
  "img_src i = Some s \<Longrightarrow> avatarErrorHandler i = Some rest
   \<Longrightarrow> probes loads (i, wrap) = attempts loads (s # rest)"
proof (induction rest arbitrary: i s)
  case Nil
  then show ?case by (simp add: on_error_def)
next
  case (Cons n rest)
  have "probes loads (i\<lparr>img_src := Some n, avatarErrorHandler := Some rest\<rparr>, wrap)
        = attempts loads (n # rest)"
    by (rule Cons.IH) simp_all
  with Cons.prems show ?case by (simp add: on_error_def)
qed

lemma settle_all_fail:
  "img_src i = Some s \<Longrightarrow> avatarErrorHandler i = Some rest
   \<Longrightarrow> \<forall>f \<in> set (s # rest). \<not> loads f
   \<Longrightarrow> settle loads (i, wrap) =
         (i\<lparr>img_hidden := True, img_src := None, img_alt := [], avatarErrorHandler := None\<rparr>,
          map_option (\<lambda>w. w\<lparr>wrapper_hidden := True\<rparr>) wrap)"
proof (induction rest arbitrary: i s)
  case Nil
  then show ?case by (simp add: on_error_def)
next
  case (Cons n rest)
  have "settle loads (i\<lparr>img_src := Some n, avatarErrorHandler := Some rest\<rparr>, wrap) =
      (i\<lparr>img_src := Some n, avatarErrorHandler := Some rest\<rparr>
         \<lparr>img_hidden := True, img_src := None, img_alt := [], avatarErrorHandler := None\<rparr>,
       map_option (\<lambda>w. w\<lparr>wrapper_hidden := True\<rparr>) wrap)"
    using Cons.prems by (intro Cons.IH) auto
  with Cons.prems show ?case by (simp add: on_error_def)
qed

text \<open>
  C5 as stated fails for a name with an unpaired surrogate: \<open>encodeURIComponent\<close> throws
  \<open>URIError\<close> out of \<open>getAvatarBases\<close> and \<open>applyAvatar\<close>, and nothing is probed.
\<close>

theorem unpaired_surrogate_name_throws:
  "getAvatarBases sample_engine [0xD800] = Inl URIError
   \<and> applyAvatar sample_engine (Some example_img) [0xD800] None = Inl URIError"
  by (simp add: getAvatarBases_def applyAvatar_def trim_def is_space_def unreserved_def
      is_surrogate_def)

text \<open>
  C5, amended. For every player name without an unpaired surrogate, \<open>applyAvatar\<close> on
  an image element raises no error and the browser requests the candidate files in
  their fixed order, all extensions of one base before the next base, up to the first
  file that loads; when no candidate loads, or there is none, the image is hidden, its
  source is removed and its wrapper is hidden.
\<close>

theorem avatar_probe_order:
  assumes "well_formed playerName"
  shows "\<exists>i' wrap'.
     applyAvatar E (Some i) playerName wrap = Inr (Some i', wrap')
     \<and> probes loads (i', wrap') = attempts loads (candidate_files E playerName)
     \<and> ((\<forall>f \<in> set (candidate_files E playerName). \<not> loads f) \<longrightarrow>
          img_hidden (fst (settle loads (i', wrap')))
          \<and> img_src (fst (settle loads (i', wrap'))) = None
          \<and> snd (settle loads (i', wrap')) = map_option (\<lambda>w. w\<lparr>wrapper_hidden := True\<rparr>) wrap)"
proof (cases "candidate_files E playerName")
  case Nil
  with getAvatarBases_candidates [OF assms, of E] show ?thesis
    by (simp add: applyAvatar_def avatar_sources_files)
next
  case (Cons f fs)
  let ?i = "i\<lparr>img_hidden := False, img_src := Some f,
              img_alt := (if playerName \<noteq> [] then playerName @ 0x27 # lit ''s avatar'' else []),
              avatarErrorHandler := Some fs\<rparr>"
  let ?w = "map_option (\<lambda>w. w\<lparr>wrapper_hidden := False\<rparr>) wrap"
  have run: "applyAvatar E (Some i) playerName wrap = Inr (Some ?i, ?w)"
    using getAvatarBases_candidates [OF assms, of E] Cons
    by (simp add: applyAvatar_def avatar_sources_files)
  have order: "probes loads (?i, ?w) = attempts loads (f # fs)"
    by (rule probes_attempts) simp_all
  have hide: "\<forall>g \<in> set (f # fs). \<not> loads g \<Longrightarrow>
      settle loads (?i, ?w) =
        (?i\<lparr>img_hidden := True, img_src := None, img_alt := [], avatarErrorHandler := None\<rparr>,
         map_option (\<lambda>w. w\<lparr>wrapper_hidden := True\<rparr>) ?w)"
    by (rule settle_all_fail) simp_all
  have w: "map_option (\<lambda>w. w\<lparr>wrapper_hidden := True\<rparr>) ?w
           = map_option (\<lambda>w. w\<lparr>wrapper_hidden := True\<rparr>) wrap"
    by (cases wrap) simp_all
  from run order hide w Cons show ?thesis by auto
qed

text \<open>The player \<open>Sam\<close>, none of whose four files exists.\<close>

theorem avatar_probe_order_witness:
  "well_formed (lit ''Sam'')
   \<and> candidate_files sample_engine (lit ''Sam'') =
       [lit ''./avatars/Sam.png'', lit ''./avatars/Sam.jpg'', lit ''./avatars/Sam.jpeg'',
        lit ''./avatars/Sam.webp'']
   \<and> (\<exists>i' wrap'.
        applyAvatar sample_engine (Some example_img) (lit ''Sam'')
          (Some \<lparr>wrapper_hidden = False\<rparr>) = Inr (Some i', wrap')
        \<and> probes (\<lambda>f. False) (i', wrap') =
            [lit ''./avatars/Sam.png'', lit ''./avatars/Sam.jpg'', lit ''./avatars/Sam.jpeg'',
             lit ''./avatars/Sam.webp'']
        \<and> img_hidden (fst (settle (\<lambda>f. False) (i', wrap')))
        \<and> img_src (fst (settle (\<lambda>f. False) (i', wrap'))) = None
        \<and> snd (settle (\<lambda>f. False) (i', wrap')) = Some \<lparr>wrapper_hidden = True\<rparr>)"
proof -
  have wf: "well_formed (lit ''Sam'')"
    by (simp add: well_formed_def is_surrogate_def lit_def)
  have files: "candidate_files sample_engine (lit ''Sam'') =
       [lit ''./avatars/Sam.png'', lit ''./avatars/Sam.jpg'', lit ''./avatars/Sam.jpeg'',
        lit ''./avatars/Sam.webp'']"
    by (simp add: candidate_files_def candidate_bases_def encode_all_def unreserved_def
        eval_defs)
  from avatar_probe_order [OF wf, of sample_engine example_img
      "Some \<lparr>wrapper_hidden = False\<rparr>" "\<lambda>f. False"]
  show ?thesis
    unfolding files using wf by simp
qed

text \<open>The four bases of a name with a diacritic and a space.\<close>

lemma example_bases:
  "candidate_bases sample_engine [0x4A, 0x6F, 0x73, 0xE9, 0x20, 0x4C, 0x75, 0x69, 0x73] =
     [[0x4A, 0x6F, 0x73, 0xE9, 0x20, 0x4C, 0x75, 0x69, 0x73],
      lit ''Jos%C3%A9%20Luis'',
      [0x4A, 0x6F, 0x73, 0xE9, 0x5F, 0x4C, 0x75, 0x69, 0x73],
      lit ''jose_luis'']"
  by (simp add: candidate_bases_def encode_all_def unreserved_def utf8_encode_def
      escape_octet_def hex_char_def eval_defs)

section \<open>Properties of loading the page\<close>

lemma replace_with_containers:
  "containers (replace_with s msg pg) sel =
     (if sel = s \<and> containers pg s \<noteq> None then Some [msg] else containers pg sel)"
  by (simp add: replace_with_def)

lemma replace_with_greeting: "greeting (replace_with s msg pg) = greeting pg"
  by (simp add: replace_with_def)

lemma handleError_greeting: "greeting (handleError pg) = greeting pg"
  by (simp add: handleError_def replace_with_greeting)

lemma handleError_sections:
  "list_all (\<lambda>(sel, msg). containers (handleError pg) sel =
       (if containers pg sel = None then None else Some [msg])) error_sections"
  by (simp add: error_sections_def handleError_def replace_with_containers)

lemma handleError_elsewhere:
  "sel \<notin> fst ` set error_sections \<Longrightarrow> containers (handleError pg) sel = containers pg sel"
  by (simp add: error_sections_def handleError_def replace_with_containers)

lemma loadGuestTokens_failed: "loadGuestTokens (Inl err) = Map.empty"
  by (simp add: loadGuestTokens_def)

lemma loadGuestTokens_no_tokens: "loadGuestTokens (Inr (JObj [])) = Map.empty"
  by (simp add: loadGuestTokens_def token_source_def)

text \<open>
  What \<open>init\<close> does with a failed fetch when \<open>renderGreeting\<close> returns. A failed fetch
  of the tokens leaves \<open>init\<close> exactly where an empty token file leaves it: the greeting
  is rendered from the empty map and the feed is then fetched and rendered. A failed
  fetch of the feed replaces every data section that is present with its literal
  message, leaves the other elements alone and keeps the greeting that was rendered
  from the token registry. The only exception that leaves \<open>init\<close> is one that
  \<open>getGuestTokenFromUrl\<close> throws.
\<close>

lemma failed_fetch_after_greeting:
  "init E body ps (Inl err) feed_response pg = init E body ps (Inr (JObj [])) feed_response pg
   \<and> (\<forall>pg1 hl data pg2.
        renderGreeting E Map.empty ps pg = Inr (pg1, hl) \<and> body data hl pg1 = (pg2, None)
        \<longrightarrow> init E body ps (Inl err) (Inr data) pg = Inr pg2)
   \<and> (\<forall>pg1 hl.
        renderGreeting E (loadGuestTokens tokens_response) ps pg = Inr (pg1, hl)
        \<longrightarrow> init E body ps tokens_response (Inl err') pg = Inr (handleError pg1)
            \<and> greeting (handleError pg1) = greeting pg1
            \<and> list_all (\<lambda>(sel, msg). containers (handleError pg1) sel =
                  (if containers pg1 sel = None then None else Some [msg])) error_sections
            \<and> (\<forall>sel. sel \<notin> fst ` set error_sections
                  \<longrightarrow> containers (handleError pg1) sel = containers pg1 sel))
   \<and> (\<forall>e. init E body ps tokens_response feed_response pg = Inl e
        \<longrightarrow> getGuestTokenFromUrl ps = Inl e)"
proof -
  have a: "init E body ps (Inl err) feed_response pg
           = init E body ps (Inr (JObj [])) feed_response pg"
    by (simp add: init_def loadGuestTokens_failed loadGuestTokens_no_tokens)
  have b: "\<forall>pg1 hl data pg2.
        renderGreeting E Map.empty ps pg = Inr (pg1, hl) \<and> body data hl pg1 = (pg2, None)
        \<longrightarrow> init E body ps (Inl err) (Inr data) pg = Inr pg2"
    by (simp add: init_def loadGuestTokens_failed)
  have c: "\<forall>pg1 hl.
        renderGreeting E (loadGuestTokens tokens_response) ps pg = Inr (pg1, hl)
        \<longrightarrow> init E body ps tokens_response (Inl err') pg = Inr (handleError pg1)
            \<and> greeting (handleError pg1) = greeting pg1
            \<and> list_all (\<lambda>(sel, msg). containers (handleError pg1) sel =
                  (if containers pg1 sel = None then None else Some [msg])) error_sections
            \<and> (\<forall>sel. sel \<notin> fst ` set error_sections
                  \<longrightarrow> containers (handleError pg1) sel = containers pg1 sel)"
    by (simp add: init_def handleError_greeting handleError_sections handleError_elsewhere)
  have d: "\<forall>e. init E body ps tokens_response feed_response pg = Inl e
        \<longrightarrow> getGuestTokenFromUrl ps = Inl e"
    by (auto simp: init_def renderGreeting_def Let_def
        split: sum.splits option.splits prod.splits if_splits)
  from a b c d show ?thesis by blast
qed

text \<open>
  The sample page with the token \<open>Q7xG8O\<close>: first the token fetch fails, then the feed
  fetch fails; and the malformed token \<open>%\<close>, the one exception that escapes.
\<close>

lemma failed_fetch_example:
  "init sample_engine (\<lambda>data hl pg. (pg, None)) [(lit ''guest'', lit ''Q7xG8O'')]
       (Inl ()) (Inr ()) example_page
     = Inr (example_page\<lparr>greeting := Some \<lparr>hidden = True, textContent = []\<rparr>\<rparr>)
   \<and> init sample_engine (\<lambda>data hl pg. (pg, None)) [(lit ''guest'', lit ''Q7xG8O'')]
       (Inr example_tokens) (Inl () :: unit + unit) example_page
     = Inr (handleError (example_page\<lparr>greeting := Some \<lparr>hidden = False,
              textContent = lit ''Welcome to the party, Sasha!''\<rparr>\<rparr>))
   \<and> greeting (handleError (example_page\<lparr>greeting := Some \<lparr>hidden = False,
              textContent = lit ''Welcome to the party, Sasha!''\<rparr>\<rparr>))
     = Some \<lparr>hidden = False, textContent = lit ''Welcome to the party, Sasha!''\<rparr>
   \<and> containers (handleError (example_page\<lparr>greeting := Some \<lparr>hidden = False,
              textContent = lit ''Welcome to the party, Sasha!''\<rparr>\<rparr>)) ''#recent-plays''
     = Some [Message ''li'' ''timeline-item'' (lit ''Could not load plays.'')]
   \<and> containers (handleError (example_page\<lparr>greeting := Some \<lparr>hidden = False,
              textContent = lit ''Welcome to the party, Sasha!''\<rparr>\<rparr>)) ''#all-plays-list''
     = None
   \<and> init sample_engine (\<lambda>data hl pg. (pg, None)) [(lit ''guest'', lit ''%'')]
       (Inr example_tokens) (Inr () :: unit + unit) example_page
     = Inl URIError
   \<and> getGuestTokenFromUrl [(lit ''guest'', lit ''%'')] = Inl URIError"
proof -
  let ?body = "\<lambda>(data :: unit) (hl :: name_val) (pg :: unit item page). (pg, None :: js_error option)"
  let ?ps = "[(lit ''guest'', lit ''Q7xG8O'')]"
  let ?greeted = "example_page\<lparr>greeting := Some \<lparr>hidden = False,
              textContent = lit ''Welcome to the party, Sasha!''\<rparr>\<rparr>"
  have tokens: "loadGuestTokens (Inr example_tokens :: unit + json) = [lit ''Q7xG8O'' \<mapsto> lit ''Sasha'']"
    by (simp add: loadGuestTokens_def eval_defs)
  have g0: "renderGreeting sample_engine Map.empty ?ps example_page
      = Inr (example_page\<lparr>greeting := Some \<lparr>hidden = True, textContent = []\<rparr>\<rparr>, NoName)"
    by (simp add: eval_defs)
  have g1: "renderGreeting sample_engine (loadGuestTokens (Inr example_tokens :: unit + json)) ?ps
      example_page = Inr (?greeted, Name (lit ''Sasha''))"
    unfolding tokens by (simp add: eval_defs)
  have bad: "init sample_engine ?body [(lit ''guest'', lit ''%'')] (Inr example_tokens)
      (Inr () :: unit + unit) example_page = Inl URIError"
    by (simp add: init_def eval_defs)
  have sec: "containers ?greeted ''#recent-plays'' = Some []"
    "containers ?greeted ''#all-plays-list'' = None"
    by (simp_all add: example_page_def)
  note inst = failed_fetch_after_greeting [of sample_engine ?body ?ps "()" "Inr ()" example_page
      "Inr example_tokens" "()"]
  note inst2 = failed_fetch_after_greeting [of sample_engine ?body "[(lit ''guest'', lit ''%'')]"
      "()" "Inr ()" example_page "Inr example_tokens" "()"]
  from inst have "\<forall>pg1 hl data pg2.
        renderGreeting sample_engine Map.empty ?ps example_page = Inr (pg1, hl)
        \<and> ?body data hl pg1 = (pg2, None)
        \<longrightarrow> init sample_engine ?body ?ps (Inl ()) (Inr data) example_page = Inr pg2"
    by (elim conjE)
  with g0 have first: "init sample_engine ?body ?ps (Inl ()) (Inr ()) example_page
      = Inr (example_page\<lparr>greeting := Some \<lparr>hidden = True, textContent = []\<rparr>\<rparr>)"
    by blast
  from inst have "\<forall>pg1 hl.
        renderGreeting sample_engine (loadGuestTokens (Inr example_tokens :: unit + json)) ?ps
          example_page = Inr (pg1, hl)
        \<longrightarrow> init sample_engine ?body ?ps (Inr example_tokens) (Inl () :: unit + unit) example_page
              = Inr (handleError pg1)
            \<and> greeting (handleError pg1) = greeting pg1
            \<and> list_all (\<lambda>(sel, msg). containers (handleError pg1) sel =
                  (if containers pg1 sel = None then None else Some [msg])) error_sections
            \<and> (\<forall>sel. sel \<notin> fst ` set error_sections
                  \<longrightarrow> containers (handleError pg1) sel = containers pg1 sel)"
    by (elim conjE)
  with g1 have second:
    "init sample_engine ?body ?ps (Inr example_tokens) (Inl () :: unit + unit) example_page
       = Inr (handleError ?greeted)"
    "greeting (handleError ?greeted) = greeting ?greeted"
    "list_all (\<lambda>(sel, msg). containers (handleError ?greeted) sel =
        (if containers ?greeted sel = None then None else Some [msg])) error_sections"
    by blast+
  from second(3) sec have third:
    "containers (handleError ?greeted) ''#recent-plays''
       = Some [Message ''li'' ''timeline-item'' (lit ''Could not load plays.'')]"
    "containers (handleError ?greeted) ''#all-plays-list'' = None"
    by (simp_all add: error_sections_def)
  from inst2 have "\<forall>e. init sample_engine ?body [(lit ''guest'', lit ''%'')]
        (Inr example_tokens) (Inr () :: unit + unit) example_page = Inl e
        \<longrightarrow> getGuestTokenFromUrl [(lit ''guest'', lit ''%'')] = Inl e"
    by (elim conjE)
  with bad have fourth: "getGuestTokenFromUrl [(lit ''guest'', lit ''%'')] = Inl URIError"
    by blast
  from first second(1,2) third bad fourth show ?thesis by simp
qed

text \<open>
  C6 fails when the URL carries a guest token that \<open>decodeURIComponent\<close> rejects, as
  \<open>?guest=%\<close> does. \<open>renderGreeting\<close> is called between the two \<open>try\<close> blocks and inside
  neither, so its \<open>URIError\<close> rejects the promise of \<open>init\<close>. With a failed token fetch
  the greeting is not rendered and nothing proceeds to the feed, whatever the feed fetch
  would have delivered; with a failed feed fetch no section receives its message.
\<close>

theorem failed_fetch_with_malformed_token:
  "init E body [(lit ''guest'', lit ''%'')] (Inl err) feed_response example_page = Inl URIError
   \<and> init E body [(lit ''guest'', lit ''%'')] tokens_response (Inl err') example_page
       = Inl URIError"
proof -
  have "getGuestTokenFromUrl [(lit ''guest'', lit ''%'')] = Inl URIError"
    by (simp add: eval_defs)
  then show ?thesis
    by (simp add: init_def renderGreeting_def example_page_def)
qed

section \<open>Properties of player activity\<close>

text \<open>
  C7. Where the page has the activity container and the card template,
  \<open>renderPlayerActivity\<close> renders a card for an entry exactly when the entry has
  \<open>totalPlays > 0\<close> or a games list that is not empty, in the order of the feed; when no
  entry qualifies, the container holds the placeholder message instead.
\<close>

theorem activity_cards_only_for_active_players:
  assumes "containers pg ''#player-activity'' = Some old"
    and "''#activity-card-template'' \<in> set (templates pg)"
  shows "containers (renderPlayerActivity E activity highlightedName pg) ''#player-activity'' =
     Some (if filter (\<lambda>entry. 0 < totalPlays entry \<or> (\<exists>g. games entry = Some g \<and> g \<noteq> []))
                activity = []
           then [Message ''p'' ''timeline-notes''
                   (lit ''Log plays to build up player activity stats.'')]
           else map (\<lambda>entry. ActivityCard (render_card E highlightedName entry))
                  (filter (\<lambda>entry. 0 < totalPlays entry \<or> (\<exists>g. games entry = Some g \<and> g \<noteq> []))
                     activity))"
proof -
  have "meaningful = (\<lambda>entry. 0 < totalPlays entry \<or> (\<exists>g. games entry = Some g \<and> g \<noteq> []))"
    by (rule ext) (simp add: meaningful_def split: option.splits)
  with assms show ?thesis
    by (simp add: renderPlayerActivity_def Let_def)
qed

text \<open>
  Of the four sample players only Sam (two plays) and Lorenzo (one game in the list) get
  a card; Jess and Andrea alone give the placeholder.
\<close>

theorem activity_cards_only_for_active_players_witness:
  "containers example_page ''#player-activity'' = Some []
   \<and> ''#activity-card-template'' \<in> set (templates example_page)
   \<and> containers (renderPlayerActivity sample_engine example_activity NoName example_page)
        ''#player-activity''
      = Some [ActivityCard (render_card sample_engine NoName (example_activity ! 1)),
              ActivityCard (render_card sample_engine NoName (example_activity ! 2))]
   \<and> containers (renderPlayerActivity sample_engine [example_activity ! 0, example_activity ! 3]
          NoName example_page) ''#player-activity''
      = Some [Message ''p'' ''timeline-notes''
                (lit ''Log plays to build up player activity stats.'')]"
proof -
  have a: "containers example_page ''#player-activity'' = Some []"
    by (simp add: example_page_def)
  have b: "''#activity-card-template'' \<in> set (templates example_page)"
    by (simp add: example_page_def)
  show ?thesis
    using a b
      activity_cards_only_for_active_players [OF a b, of sample_engine example_activity NoName]
      activity_cards_only_for_active_players [OF a b, of sample_engine
        "[example_activity ! 0, example_activity ! 3]" NoName]
    by (simp add: example_activity_def)
qed

section \<open>Properties of the event timeline\<close>

text \<open>
  C8 as stated fails for the second function it cites. \<open>renderEvents\<close> of
  \<open>public/app.js\<close> takes the events and nothing else, and cuts the list with
  \<open>events.slice(0, 8)\<close>: of nine events it renders the first eight, each as the clone of
  the template with its title, and no argument of the call changes that number.
\<close>

theorem event_preview_counterexample:
  "length (example_events @ example_events @ example_events) = 9
   \<and> app_renderEvents sample_engine (example_events @ example_events @ example_events)
         example_page
     = Inr (example_page\<lparr>containers := (containers example_page)(''#events-timeline'' \<mapsto>
              map (\<lambda>ev. EventItem (app_render_event sample_engine (template_expand example_page) ev))
                (take 8 (example_events @ example_events @ example_events)))\<rparr>)
   \<and> length (take 8 (example_events @ example_events @ example_events)) = 8"
  by (simp add: app_renderEvents_def slice0_def example_events_def example_page_def)

text \<open>
  C8, amended. Where the page has the container and both templates, the current
  \<open>renderEvents\<close> with a limit \<open>n\<close> renders exactly the first \<open>min(n, length)\<close> events in
  list order (\<open>n\<close> counted from the end of the list when it is negative, as
  \<open>Array.prototype.slice\<close> does; \<open>init\<close> passes 5), and without a limit every event: the
  preview length is the option \<open>limit\<close>. \<open>renderEvents\<close> of \<open>public/app.js\<close> has no such
  option and renders the first \<open>min(8, length)\<close> events.
\<close>

theorem event_preview_length:
  assumes "containers pg (containerSelector opts) = Some old"
    and "''#event-template'' \<in> set (templates pg)"
    and "''#timeline-award-template'' \<in> set (templates pg)"
  shows
    "(\<forall>n. limit opts = Some n \<and> 0 \<le> n \<longrightarrow>
        containers (renderEvents E events highlightedName opts pg) (containerSelector opts) =
          Some (if take (nat n) events = []
                then [Message ''li'' ''timeline-item'' (emptyMessage opts)]
                else map (\<lambda>ev. EventItem
                            (render_event E highlightedName opts (template_expand pg) ev))
                       (take (nat n) events))
        \<and> length (take (nat n) events) = min (nat n) (length events))
     \<and> (\<forall>n. limit opts = Some n \<and> n < 0 \<longrightarrow>
        containers (renderEvents E events highlightedName opts pg) (containerSelector opts) =
          Some (if take (length events - nat (- n)) events = []
                then [Message ''li'' ''timeline-item'' (emptyMessage opts)]
                else map (\<lambda>ev. EventItem
                            (render_event E highlightedName opts (template_expand pg) ev))
                       (take (length events - nat (- n)) events)))
     \<and> (limit opts = None \<longrightarrow>
        containers (renderEvents E events highlightedName opts pg) (containerSelector opts) =
          Some (if events = []
                then [Message ''li'' ''timeline-item'' (emptyMessage opts)]
                else map (\<lambda>ev. EventItem
                            (render_event E highlightedName opts (template_expand pg) ev))
                       events))
     \<and> (\<forall>pg'. app_renderEvents E events pg = Inr pg' \<longrightarrow>
        containers pg' ''#events-timeline'' =
          Some (if events = []
                then [Message ''li'' ''timeline-item''
                        (lit ''No events logged yet. Awards will show here automatically.'')]
                else map (\<lambda>ev. EventItem (app_render_event E (template_expand pg) ev))
                       (take 8 events))
        \<and> length (take 8 events) = min 8 (length events))"
proof -
  have neg: "nat (int (length events) + n) = length events - nat (- n)" if "n < 0" for n
    using that by linarith
  have a: "\<forall>n. limit opts = Some n \<and> 0 \<le> n \<longrightarrow>
        containers (renderEvents E events highlightedName opts pg) (containerSelector opts) =
          Some (if take (nat n) events = []
                then [Message ''li'' ''timeline-item'' (emptyMessage opts)]
                else map (\<lambda>ev. EventItem
                            (render_event E highlightedName opts (template_expand pg) ev))
                       (take (nat n) events))
        \<and> length (take (nat n) events) = min (nat n) (length events)"
    using assms by (auto simp: renderEvents_def slice0_def Let_def)
  have b: "\<forall>n. limit opts = Some n \<and> n < 0 \<longrightarrow>
        containers (renderEvents E events highlightedName opts pg) (containerSelector opts) =
          Some (if take (length events - nat (- n)) events = []
                then [Message ''li'' ''timeline-item'' (emptyMessage opts)]
                else map (\<lambda>ev. EventItem
                            (render_event E highlightedName opts (template_expand pg) ev))
                       (take (length events - nat (- n)) events))"
    using assms by (auto simp: renderEvents_def slice0_def Let_def neg)
  have c: "limit opts = None \<longrightarrow>
        containers (renderEvents E events highlightedName opts pg) (containerSelector opts) =
          Some (if events = []
                then [Message ''li'' ''timeline-item'' (emptyMessage opts)]
                else map (\<lambda>ev. EventItem
                            (render_event E highlightedName opts (template_expand pg) ev))
                       events)"
    using assms by (auto simp: renderEvents_def Let_def)
  have d: "\<forall>pg'. app_renderEvents E events pg = Inr pg' \<longrightarrow>
        containers pg' ''#events-timeline'' =
          Some (if events = []
                then [Message ''li'' ''timeline-item''
                        (lit ''No events logged yet. Awards will show here automatically.'')]
                else map (\<lambda>ev. EventItem (app_render_event E (template_expand pg) ev))
                       (take 8 events))
        \<and> length (take 8 events) = min 8 (length events)"
    by (auto simp: app_renderEvents_def slice0_def split: if_splits)
  from a b c d show ?thesis by blast
qed

text \<open>
  With the options \<open>init\<close> passes, the timeline holds the first five events and the
  full list holds them all.
\<close>

lemma init_event_lists:
  assumes "''#event-template'' \<in> set (templates pg)"
    and "''#timeline-award-template'' \<in> set (templates pg)"
    and "events \<noteq> []"
  shows "containers pg ''#events-timeline'' \<noteq> None \<Longrightarrow>
           map_option length
             (containers (renderEvents E events highlightedName preview_options pg)
                ''#events-timeline'') = Some (min 5 (length events))"
    and "containers pg ''#all-events-list'' \<noteq> None \<Longrightarrow>
           map_option length
             (containers (renderEvents E events highlightedName full_options pg)
                ''#all-events-list'') = Some (length events)"
  using assms
  by (auto simp: renderEvents_def preview_options_def full_options_def
      default_event_options_def slice0_def Let_def)

text \<open>
  Three sample events with the limits 2 and -2 and without a limit, and nine events in
  the renderer of \<open>public/app.js\<close>.
\<close>

theorem event_preview_length_witness:
  "containers example_page (containerSelector (default_event_options\<lparr>limit := Some 2\<rparr>)) = Some []
   \<and> ''#event-template'' \<in> set (templates example_page)
   \<and> ''#timeline-award-template'' \<in> set (templates example_page)
   \<and> containers (renderEvents sample_engine example_events NoName
          (default_event_options\<lparr>limit := Some 2\<rparr>) example_page) ''#events-timeline''
       = Some (map (\<lambda>ev. EventItem (render_event sample_engine NoName
                  (default_event_options\<lparr>limit := Some 2\<rparr>) (template_expand example_page) ev))
                (take 2 example_events))
   \<and> containers (renderEvents sample_engine example_events NoName
          (default_event_options\<lparr>limit := Some (- 2)\<rparr>) example_page) ''#events-timeline''
       = Some (map (\<lambda>ev. EventItem (render_event sample_engine NoName
                  (default_event_options\<lparr>limit := Some (- 2)\<rparr>) (template_expand example_page) ev))
                (take 1 example_events))
   \<and> containers (renderEvents sample_engine example_events NoName
          default_event_options example_page) ''#events-timeline''
       = Some (map (\<lambda>ev. EventItem (render_event sample_engine NoName
                  default_event_options (template_expand example_page) ev))
                example_events)
   \<and> (case app_renderEvents sample_engine (example_events @ example_events @ example_events)
            example_page of
         Inl e \<Rightarrow> None
       | Inr pg \<Rightarrow> containers pg ''#events-timeline'')
       = Some (map (\<lambda>ev. EventItem
                         (app_render_event sample_engine (template_expand example_page) ev))
                (take 8 (example_events @ example_events @ example_events)))"
proof -
  have a: "containers example_page (containerSelector opts) = Some []"
    if "containerSelector opts = ''#events-timeline''" for opts :: event_options
    using that by (simp add: example_page_def)
  have b: "''#event-template'' \<in> set (templates example_page)"
    by (simp add: example_page_def)
  have c: "''#timeline-award-template'' \<in> set (templates example_page)"
    by (simp add: example_page_def)
  have sel: "containerSelector (default_event_options\<lparr>limit := l\<rparr>) = ''#events-timeline''"
    for l
    by (simp add: default_event_options_def)
  have sel0: "containerSelector default_event_options = ''#events-timeline''"
    by (simp add: default_event_options_def)
  have none: "limit default_event_options = None"
    by (simp add: default_event_options_def)
  have three: "example_events \<noteq> []" "take 2 example_events \<noteq> []" "take 1 example_events \<noteq> []"
    "length example_events = 3"
    by (simp_all add: example_events_def)
  have legacy: "\<exists>pg'. app_renderEvents sample_engine
      (example_events @ example_events @ example_events) example_page = Inr pg'"
    by (simp add: app_renderEvents_def example_page_def example_events_def slice0_def)
  then obtain pg' where pg': "app_renderEvents sample_engine
      (example_events @ example_events @ example_events) example_page = Inr pg'" ..
  have two: "containers (renderEvents sample_engine example_events NoName
          (default_event_options\<lparr>limit := Some 2\<rparr>) example_page) ''#events-timeline''
       = Some (map (\<lambda>ev. EventItem (render_event sample_engine NoName
                  (default_event_options\<lparr>limit := Some 2\<rparr>) (template_expand example_page) ev))
                (take 2 example_events))"
    using event_preview_length [OF a [OF sel] b c, of "Some 2" sample_engine example_events NoName]
      three
    by (simp add: sel)
  have minus: "containers (renderEvents sample_engine example_events NoName
          (default_event_options\<lparr>limit := Some (- 2)\<rparr>) example_page) ''#events-timeline''
       = Some (map (\<lambda>ev. EventItem (render_event sample_engine NoName
                  (default_event_options\<lparr>limit := Some (- 2)\<rparr>) (template_expand example_page) ev))
                (take 1 example_events))"
    using event_preview_length [OF a [OF sel] b c, of "Some (- 2)" sample_engine example_events
        NoName] three
    by (simp add: sel)
  have full: "containers (renderEvents sample_engine example_events NoName
          default_event_options example_page) ''#events-timeline''
       = Some (map (\<lambda>ev. EventItem (render_event sample_engine NoName
                  default_event_options (template_expand example_page) ev))
                example_events)"
    using event_preview_length [OF a [OF sel0] b c, of sample_engine example_events NoName]
      three none
    by (simp add: sel0)
  have old: "containers pg' ''#events-timeline''
       = Some (map (\<lambda>ev. EventItem
                         (app_render_event sample_engine (template_expand example_page) ev))
                (take 8 (example_events @ example_events @ example_events)))"
    using event_preview_length [OF a [OF sel0] b c, of sample_engine
        "example_events @ example_events @ example_events" NoName] pg' three
    by simp
  from a [OF sel] b c two minus full old pg' show ?thesis by simp
qed

end
